theory Spec2Isabelle
  imports Complex_Main "HOL-Library.Multiset" "HOL-Library.Char_ord" "HOL-Library.List_Lexorder"
begin

section \<open>JavaScript strings and numbers\<close>

text \<open>
  Strings are lists of one-byte characters. The character classes below are the
  restrictions of the JavaScript ones to that range: \<open>\s\<close> and \<open>trim\<close> see TAB, LF, VT,
  FF, CR, space and NBSP; \<open>\d\<close> sees the ten ASCII digits; \<open>toLowerCase\<close> and
  \<open>toUpperCase\<close> act on the ASCII letters and leave every other character alone.
\<close>

definition isSpace :: "char \<Rightarrow> bool" where
  "isSpace c = (c \<in> set [CHR 0x09, CHR 0x0A, CHR 0x0B, CHR 0x0C, CHR 0x0D, CHR '' '', CHR 0xA0])"

definition isDigit :: "char \<Rightarrow> bool" where
  "isDigit c = (c \<in> set ''0123456789'')"

definition digitVal :: "char \<Rightarrow> nat" where
  "digitVal c = (case map_of (zip ''0123456789'' [0, 1, 2, 3, 4, 5, 6, 7, 8, 9]) c of
                   Some d \<Rightarrow> d | None \<Rightarrow> 0)"

definition toLowerChar :: "char \<Rightarrow> char" where
  "toLowerChar c =
     (case map_of (zip ''ABCDEFGHIJKLMNOPQRSTUVWXYZ'' ''abcdefghijklmnopqrstuvwxyz'') c of
        Some d \<Rightarrow> d | None \<Rightarrow> c)"

definition toUpperChar :: "char \<Rightarrow> char" where
  "toUpperChar c =
     (case map_of (zip ''abcdefghijklmnopqrstuvwxyz'' ''ABCDEFGHIJKLMNOPQRSTUVWXYZ'') c of
        Some d \<Rightarrow> d | None \<Rightarrow> c)"

definition toLowerCase :: "string \<Rightarrow> string" where
  "toLowerCase s = map toLowerChar s"

definition trimStart :: "string \<Rightarrow> string" where
  "trimStart s = dropWhile isSpace s"

definition trim :: "string \<Rightarrow> string" where
  "trim s = rev (dropWhile isSpace (rev (dropWhile isSpace s)))"

text \<open>The value of a run of decimal digits, most significant first.\<close>

definition digitsVal :: "string \<Rightarrow> nat" where
  "digitsVal ds = foldl (\<lambda>acc c. 10 * acc + digitVal c) 0 ds"

text \<open>
  \<open>parseInt(s, 10)\<close>: leading white space is skipped, one sign is read, then the longest
  run of digits; no digit at all gives NaN, which is \<open>None\<close> here. The result is the exact
  integer (a double rounds it beyond 2^53, which no clamp below can observe).
\<close>

definition parseInt10 :: "string \<Rightarrow> int option" where
  "parseInt10 s =
     (let s1 = trimStart s;
          neg = (s1 \<noteq> [] \<and> hd s1 = CHR ''-'');
          s2 = (if s1 \<noteq> [] \<and> (hd s1 = CHR ''-'' \<or> hd s1 = CHR ''+'') then tl s1 else s1);
          ds = takeWhile isDigit s2
      in if ds = [] then None
         else Some (if neg then - int (digitsVal ds) else int (digitsVal ds)))"

section \<open>Catalog endpoint: skip and limit\<close>

text \<open>
  \<open>extras.limit\<close> is a string or missing. \<open>x || d\<close> takes \<open>d\<close> when \<open>x\<close> is falsy: the
  missing or empty string, NaN and zero.
  \<^verbatim>\<open>const limit = Math.max(1, Math.min(80, parseInt(extras.limit || '50', 10) || 50));\<close>
  \<^verbatim>\<open>const skip = Math.max(0, parseInt(extras.skip || '0', 10) || 0);\<close>
\<close>

definition strOr :: "string option \<Rightarrow> string \<Rightarrow> string" where
  "strOr x d = (case x of None \<Rightarrow> d | Some v \<Rightarrow> if v = [] then d else v)"

definition intOr :: "int option \<Rightarrow> int \<Rightarrow> int" where
  "intOr x d = (case x of None \<Rightarrow> d | Some k \<Rightarrow> if k = 0 then d else k)"

definition catalogLimit :: "string option \<Rightarrow> int" where
  "catalogLimit raw = max 1 (min 80 (intOr (parseInt10 (strOr raw ''50'')) 50))"

definition catalogSkip :: "string option \<Rightarrow> int" where
  "catalogSkip raw = max 0 (intOr (parseInt10 (strOr raw ''0'')) 0)"


section \<open>Metadata records\<close>

text \<open>
  A metadata record is the JSON object of the metadata service. A scalar field is missing
  (\<open>undefined\<close> or \<open>null\<close>, which no code below tells apart on these fields), a finite
  number or a string; \<open>meta.rating\<close> may also be an object with an \<open>imdb\<close> property; a
  genre field is missing, one string or an array of strings. \<open>mid\<close> and \<open>mtype\<close> are the
  strings \<open>meta.id\<close> and \<open>meta.type\<close>, empty when missing. The name is \<open>undefined\<close> (the
  property is missing), \<open>null\<close> or a string: \<open>normalizeTitle\<close> tells the first two apart.
  \<open>mtitle\<close> is \<open>meta.title\<close>, \<open>None\<close> when missing. \<open>videos\<close> is \<open>None\<close> when
  \<open>meta.videos\<close> is not an array; of a video the code reads \<open>type\<close> (the empty string
  when missing) and \<open>season\<close>.
\<close>

datatype scalar = Absent | NumV rat | StrV string

datatype ratingField = RScalar scalar | RObj scalar

datatype genreField = GNone | GStr string | GArr "string list"

datatype nameField = Undefined | Null | Str string

record video =
  vtype :: string
  vseason :: scalar

record meta =
  mid :: string
  mtype :: string
  mname :: nameField
  mtitle :: "string option"
  year :: scalar
  releaseInfo :: scalar
  rating :: ratingField
  imdbRating :: scalar
  imdb_rating :: scalar
  imdbRatingScore :: scalar
  runtimeMinutes :: scalar
  runtime :: scalar
  genres :: genreField
  genre :: genreField
  addedAt :: scalar
  videos :: "video list option"
  totalSeasons :: scalar

definition blankMeta :: meta where
  "blankMeta = \<lparr> mid = [], mtype = [], mname = Undefined, mtitle = None, year = Absent,
     releaseInfo = Absent, rating = RScalar Absent, imdbRating = Absent, imdb_rating = Absent,
     imdbRatingScore = Absent, runtimeMinutes = Absent, runtime = Absent, genres = GNone,
     genre = GNone, addedAt = Absent, videos = None, totalSeasons = Absent \<rparr>"

text \<open>\<open>name || ''\<close>: the name when it is a string, else the empty string.\<close>

definition nameStr :: "nameField \<Rightarrow> string" where
  "nameStr n = (case n of Str s \<Rightarrow> s | Undefined \<Rightarrow> [] | Null \<Rightarrow> [])"

text \<open>Truthiness, and \<open>a || b\<close> on fields.\<close>

fun truthyS :: "scalar \<Rightarrow> bool" where
  "truthyS Absent = False"
| "truthyS (NumV r) = (r \<noteq> 0)"
| "truthyS (StrV s) = (s \<noteq> [])"

fun truthyG :: "genreField \<Rightarrow> bool" where
  "truthyG GNone = False"
| "truthyG (GStr s) = (s \<noteq> [])"
| "truthyG (GArr xs) = True"

definition sOr :: "scalar \<Rightarrow> scalar \<Rightarrow> scalar" where
  "sOr a b = (if truthyS a then a else b)"

definition gOr :: "genreField \<Rightarrow> genreField \<Rightarrow> genreField" where
  "gOr a b = (if truthyG a then a else b)"

section \<open>Genre canonicalization\<close>

text \<open>A JavaScript \<open>Set\<close> of strings keeps insertion order: a list without repetition.\<close>

definition setAdd :: "string \<Rightarrow> string list \<Rightarrow> string list" where
  "setAdd x xs = (if x \<in> set xs then xs else xs @ [x])"

text \<open>\<open>s.split(c)\<close> for a one-character separator, and \<open>xs.join(' ')\<close>.\<close>

fun splitOn :: "char \<Rightarrow> string \<Rightarrow> string list" where
  "splitOn c [] = [[]]"
| "splitOn c (x # xs) =
     (if x = c then [] # splitOn c xs
      else (case splitOn c xs of [] \<Rightarrow> [[x]] | w # ws \<Rightarrow> (x # w) # ws))"

fun joinSp :: "string list \<Rightarrow> string" where
  "joinSp [] = []"
| "joinSp [w] = w"
| "joinSp (w # ws) = w @ CHR '' '' # joinSp ws"

text \<open>
  \<^verbatim>\<open>const _normGenre = s => String(s||'').toLowerCase().replace(/[\s._-]+/g, ' ').trim();\<close>
  Every run of white space, dots, underscores and hyphens becomes one space.
\<close>

definition isGenreSep :: "char \<Rightarrow> bool" where
  "isGenreSep c = (isSpace c \<or> c = CHR ''.'' \<or> c = CHR ''_'' \<or> c = CHR ''-'')"

function collapseSeps :: "string \<Rightarrow> string" where
  "collapseSeps [] = []"
| "collapseSeps (c # cs) =
     (if isGenreSep c then CHR '' '' # collapseSeps (dropWhile isGenreSep cs)
      else c # collapseSeps cs)"
  by pat_completeness auto
termination
  by (relation "measure length") (auto simp: length_dropWhile_le le_imp_less_Suc)

definition normGenre :: "string \<Rightarrow> string" where
  "normGenre s = trim (collapseSeps (toLowerCase s))"

definition GENRE_ALIASES :: "(string \<times> string) list" where
  "GENRE_ALIASES =
    [(''sci fi'', ''Sci-Fi''), (''scifi'', ''Sci-Fi''), (''sci-fi'', ''Sci-Fi''),
     (''science fiction'', ''Sci-Fi''),
     (''doc'', ''Documentary''), (''docs'', ''Documentary''),
     (''documentaries'', ''Documentary''), (''documentary'', ''Documentary''),
     (''biopic'', ''Biography''), (''bio'', ''Biography''), (''biography'', ''Biography''),
     (''tvmovie'', ''TV Movie''), (''tv movie'', ''TV Movie''),
     (''reality tv'', ''Reality-TV''), (''reality-tv'', ''Reality-TV''),
     (''talk show'', ''Talk-Show''), (''talk-show'', ''Talk-Show''),
     (''game show'', ''Game-Show''), (''game-show'', ''Game-Show''),
     (''kids'', ''Family''), (''children'', ''Family''), (''childrens'', ''Family''),
     (''action & adventure'', ''Action & Adventure''),
     (''sci-fi & fantasy'', ''Sci-Fi & Fantasy'')]"

definition GENRE_EXPANDS :: "(string \<times> string list) list" where
  "GENRE_EXPANDS =
    [(''Action & Adventure'', [''Action'', ''Adventure'']),
     (''Sci-Fi & Fantasy'', [''Sci-Fi'', ''Fantasy''])]"

definition capitalize :: "string \<Rightarrow> string" where
  "capitalize w = (case w of [] \<Rightarrow> [] | c # cs \<Rightarrow> toUpperChar c # cs)"

text \<open>\<open>canonicalizeGenre\<close>: \<open>None\<close> is the \<open>null\<close> returned for a falsy input.\<close>

definition canonicalizeGenre :: "string \<Rightarrow> string option" where
  "canonicalizeGenre input =
     (if input = [] then None
      else let key = normGenre input in
        case map_of GENRE_ALIASES key of
          Some aliased \<Rightarrow> Some aliased
        | None \<Rightarrow>
            let words = joinSp (map capitalize (splitOn (CHR '' '') key))
            in if words = ''Sci Fi'' then Some ''Sci-Fi'' else Some words)"

text \<open>
  \<open>String(raw).split(/[,&/]| and /i)\<close>: a comma, an ampersand, a slash or the word
  \<open>and\<close> between two spaces (in any letter case) ends a part.
\<close>

fun splitGenres :: "string \<Rightarrow> string list" where
  "splitGenres [] = [[]]"
| "splitGenres (c # cs) =
     (if c = CHR '','' \<or> c = CHR ''&'' \<or> c = CHR ''/'' then [] # splitGenres cs
      else if toLowerCase (take 5 (c # cs)) = '' and '' then [] # splitGenres (drop 4 cs)
      else (case splitGenres cs of [] \<Rightarrow> [[c]] | w # ws \<Rightarrow> (c # w) # ws))"

text \<open>The loop body of \<open>explodeToCanonicalSet\<close>, for one part.\<close>

definition explodeStep :: "string list \<Rightarrow> string \<Rightarrow> string list" where
  "explodeStep canon p =
     (case canonicalizeGenre p of
        None \<Rightarrow> canon
      | Some c \<Rightarrow>
          if c = [] then canon
          else (case map_of GENRE_EXPANDS c of
                  Some expand \<Rightarrow> foldl (\<lambda>acc x. setAdd x acc) canon expand
                | None \<Rightarrow> setAdd c canon))"

definition explodeToCanonicalSet :: "genreField \<Rightarrow> string list" where
  "explodeToCanonicalSet raw =
     (if \<not> truthyG raw then []
      else let parts = (case raw of GArr xs \<Rightarrow> xs | GStr s \<Rightarrow> splitGenres s | GNone \<Rightarrow> [])
           in foldl explodeStep [] parts)"

text \<open>
  The genre filter of \<open>handleCatalog\<close>, for a truthy \<open>genreRaw\<close>:
  \<^verbatim>\<open>
  const wantedCanon = canonicalizeGenre(genreRaw);
  const wantedSet = new Set(GENRE_EXPANDS.get(wantedCanon) || [wantedCanon]);
  metas = metas.filter(meta => {
    const metaSet = explodeToCanonicalSet(meta.genres || meta.genre);
    for (const w of wantedSet) if (metaSet.has(w)) return true;
    return false; });\<close>
  The set holds \<open>null\<close> when \<open>wantedCanon\<close> is \<open>null\<close>; no string equals it.
\<close>

definition wantedSet :: "string \<Rightarrow> string option list" where
  "wantedSet genreRaw =
     (case canonicalizeGenre genreRaw of
        None \<Rightarrow> [None]
      | Some c \<Rightarrow> (case map_of GENRE_EXPANDS c of
                     Some expand \<Rightarrow> map Some expand
                   | None \<Rightarrow> [Some c]))"

definition genreMatches :: "string \<Rightarrow> meta \<Rightarrow> bool" where
  "genreMatches genreRaw m =
     (let metaSet = explodeToCanonicalSet (gOr (genres m) (genre m))
      in list_ex (\<lambda>w. case w of None \<Rightarrow> False | Some g \<Rightarrow> g \<in> set metaSet) (wantedSet genreRaw))"


section \<open>Numbers read from fields\<close>

text \<open>
  A JavaScript number is a double: a rational with a 53-bit mantissa, one of the two
  infinities, or NaN. The two zeros compare equal and are one value here.
\<close>

datatype jsnum = Num rat | NaN | PosInf | NegInf

datatype jserr = TypeError | URIError | NetworkError | SyntaxError

text \<open>
  The place of a number among the others, none for NaN; \<open>a < b\<close>, \<open>a !== b\<close>, and the
  sign of \<open>a - b\<close>, \<open>None\<close> when the difference is NaN (a NaN operand, or two equal
  infinities). The difference of two different doubles is never zero.
\<close>

fun rank :: "jsnum \<Rightarrow> (int \<times> rat) option" where
  "rank (Num r) = Some (0, r)"
| "rank NaN = None"
| "rank PosInf = Some (1, 0)"
| "rank NegInf = Some (- 1, 0)"

definition rankLess :: "int \<times> rat \<Rightarrow> int \<times> rat \<Rightarrow> bool" where
  "rankLess x y = (fst x < fst y \<or> (fst x = fst y \<and> snd x < snd y))"

definition numLess :: "jsnum \<Rightarrow> jsnum \<Rightarrow> bool" where
  "numLess a b = (case (rank a, rank b) of (Some x, Some y) \<Rightarrow> rankLess x y | _ \<Rightarrow> False)"

definition numNeq :: "jsnum \<Rightarrow> jsnum \<Rightarrow> bool" where
  "numNeq a b = (a = NaN \<or> b = NaN \<or> a \<noteq> b)"

definition numDiff :: "jsnum \<Rightarrow> jsnum \<Rightarrow> int option" where
  "numDiff a b =
     (case (rank a, rank b) of
        (Some x, Some y) \<Rightarrow>
          if rankLess x y then Some (- 1) else if rankLess y x then Some 1
          else if fst x = 0 then Some 0 else None
      | _ \<Rightarrow> None)"

subsection \<open>Rounding to a double\<close>

text \<open>
  The double nearest to a positive rational \<open>n / d\<close>, ties to the even mantissa. \<open>e\<close> is
  the exponent with \<open>2^e \<le> n / d < 2^(e+1)\<close> (\<open>log2floor\<close> counts the halvings of an
  integer down to 1); the unit in the last place is \<open>2^q\<close> with \<open>q = e - 52\<close>, and never
  less than \<open>2^-1074\<close> (the subnormal range); \<open>m\<close> is \<open>n / d / 2^q\<close> rounded to an
  integer; the value is \<open>m * 2^q\<close>, and infinity from \<open>2^1024\<close> on.
\<close>

function log2floor :: "int \<Rightarrow> int" where
  "log2floor n = (if n < 2 then 0 else 1 + log2floor (n div 2))"
  by pat_completeness auto
termination
  by (relation "measure nat") auto

definition pow2 :: "int \<Rightarrow> rat" where
  "pow2 k = (if 0 \<le> k then 2 ^ nat k else 1 / 2 ^ nat (- k))"

definition toDouble :: "rat \<Rightarrow> jsnum" where
  "toDouble r =
     (if r \<le> 0 then Num 0
      else let n = fst (quotient_of r); d = snd (quotient_of r);
               e0 = log2floor n - log2floor d;
               e = (if (if 0 \<le> e0 then 2 ^ nat e0 * d \<le> n else d \<le> 2 ^ nat (- e0) * n)
                    then e0 else e0 - 1);
               q = max (e - 52) (- 1074);
               N = (if 0 \<le> q then n else 2 ^ nat (- q) * n);
               D = (if 0 \<le> q then 2 ^ nat q * d else d);
               f = N div D; rm = N mod D;
               m = (if 2 * rm < D then f else if D < 2 * rm then f + 1
                    else if even f then f else f + 1)
           in if 0 \<le> q \<and> 2 ^ 1024 \<le> m * 2 ^ nat q then PosInf else Num (of_int m * pow2 q))"

definition negate :: "jsnum \<Rightarrow> jsnum" where
  "negate v = (case v of Num r \<Rightarrow> Num (- r) | NaN \<Rightarrow> NaN | PosInf \<Rightarrow> NegInf | NegInf \<Rightarrow> PosInf)"

subsection \<open>\<open>Number\<close> of a string\<close>

text \<open>The value of a run of digits as an integer.\<close>

definition digitsInt :: "string \<Rightarrow> int" where
  "digitsInt ds = foldl (\<lambda>acc c. 10 * acc + int (digitVal c)) 0 ds"

text \<open>
  An unsigned decimal literal: \<open>Infinity\<close>, or digits with an optional dot and more
  digits (at least one digit in all), then an optional exponent \<open>e\<close> or \<open>E\<close> with an
  optional sign and at least one digit. Its value is rounded to a double; anything else
  is NaN.
\<close>

definition exponentOf :: "string \<Rightarrow> int option" where
  "exponentOf t =
     (if t = [] then Some 0
      else if hd t \<noteq> CHR ''e'' \<and> hd t \<noteq> CHR ''E'' then None
      else let u = tl t;
               neg = (u \<noteq> [] \<and> hd u = CHR ''-'');
               ds = (if u \<noteq> [] \<and> (hd u = CHR ''-'' \<or> hd u = CHR ''+'') then tl u else u)
           in if ds = [] \<or> \<not> list_all isDigit ds then None
              else Some (if neg then - digitsInt ds else digitsInt ds))"

definition pow10 :: "int \<Rightarrow> rat" where
  "pow10 k = (if 0 \<le> k then 10 ^ nat k else 1 / 10 ^ nat (- k))"

definition decimalOf :: "string \<Rightarrow> jsnum" where
  "decimalOf lit =
     (if lit = ''Infinity'' then PosInf
      else let ip = takeWhile isDigit lit; r1 = dropWhile isDigit lit;
               dot = (r1 \<noteq> [] \<and> hd r1 = CHR ''.'');
               fp = (if dot then takeWhile isDigit (tl r1) else []);
               r2 = (if dot then dropWhile isDigit (tl r1) else r1)
           in if ip = [] \<and> fp = [] then NaN
              else (case exponentOf r2 of
                      None \<Rightarrow> NaN
                    | Some ex \<Rightarrow>
                        toDouble ((of_int (digitsInt ip) + of_int (digitsInt fp) / 10 ^ length fp)
                                  * pow10 ex)))"

definition isNumCh :: "char \<Rightarrow> bool" where
  "isNumCh c = (isDigit c \<or> c = CHR ''.'')"

text \<open>
  \<^verbatim>\<open>
  const toNum = (x) => {
    if (x == null) return 0;
    if (typeof x === 'number') return isFinite(x) ? x : 0;
    const m = String(x).match(/[\d.]+/);
    return m ? Number(m[0]) : 0; };\<close>
  The match is the first run of digits and dots.
\<close>

fun toNum :: "scalar \<Rightarrow> jsnum" where
  "toNum Absent = Num 0"
| "toNum (NumV r) = Num r"
| "toNum (StrV s) =
     (let run = takeWhile isNumCh (dropWhile (\<lambda>c. \<not> isNumCh c) s)
      in if run = [] then Num 0 else decimalOf run)"

text \<open>
  \<open>Number(s)\<close> for a whole string: white space around it is dropped; the empty string is
  0; \<open>0x\<close>, \<open>0o\<close> and \<open>0b\<close> (in either case) start an unsigned integer in base 16, 8
  and 2; otherwise the string is a decimal literal with an optional sign.
\<close>

definition hexVal :: "char \<Rightarrow> int option" where
  "hexVal c = map_of (zip ''0123456789abcdefABCDEF''
                          [0, 1, 2, 3, 4, 5, 6, 7, 8, 9, 10, 11, 12, 13, 14, 15, 10, 11, 12, 13, 14, 15]) c"

definition radixVal :: "int \<Rightarrow> string \<Rightarrow> jsnum" where
  "radixVal base ds =
     (if ds = [] \<or> \<not> list_all (\<lambda>c. case hexVal c of None \<Rightarrow> False | Some d \<Rightarrow> d < base) ds then NaN
      else toDouble (of_int (foldl (\<lambda>acc c. base * acc + the (hexVal c)) 0 ds)))"

definition strToNumber :: "string \<Rightarrow> jsnum" where
  "strToNumber s =
     (let t = trim s; p = take 2 t in
      if t = [] then Num 0
      else if p = ''0x'' \<or> p = ''0X'' then radixVal 16 (drop 2 t)
      else if p = ''0o'' \<or> p = ''0O'' then radixVal 8 (drop 2 t)
      else if p = ''0b'' \<or> p = ''0B'' then radixVal 2 (drop 2 t)
      else if hd t = CHR ''-'' then negate (decimalOf (tl t))
      else if hd t = CHR ''+'' then decimalOf (tl t)
      else decimalOf t)"

text \<open>
  \<open>Number(v)\<close> for a field that is a number or a string. The callers pass \<open>v || 0\<close> or
  a truthy field, never a missing one; \<open>Number(undefined)\<close> is NaN.
\<close>

fun jsNumber :: "scalar \<Rightarrow> jsnum" where
  "jsNumber Absent = NaN"
| "jsNumber (NumV r) = Num r"
| "jsNumber (StrV s) = strToNumber s"

section \<open>Sorting\<close>

text \<open>
  \<open>Array.prototype.sort\<close> is stable. For a comparator that orders the elements
  consistently the result is determined, and stable insertion computes it. For an
  inconsistent comparator the language leaves the order to the engine; \<open>jsSort\<close> then
  gives the order of insertion, which need not be the engine's.
\<close>

fun insertBy :: "('a \<Rightarrow> 'a \<Rightarrow> int) \<Rightarrow> 'a \<Rightarrow> 'a list \<Rightarrow> 'a list" where
  "insertBy c x [] = [x]"
| "insertBy c x (y # ys) = (if c x y \<le> 0 then x # y # ys else y # insertBy c x ys)"

definition jsSort :: "('a \<Rightarrow> 'a \<Rightarrow> int) \<Rightarrow> 'a list \<Rightarrow> 'a list" where
  "jsSort c xs = foldr (insertBy c) xs []"

text \<open>\<open>xs.slice(start, end)\<close>, with negative positions counted from the end.\<close>

definition jsSlice :: "'a list \<Rightarrow> int \<Rightarrow> int \<Rightarrow> 'a list" where
  "jsSlice xs start end =
     (let n = int (length xs);
          k = (if start < 0 then max (n + start) 0 else min start n);
          e = (if end < 0 then max (n + end) 0 else min end n)
      in take (nat (e - k)) (drop (nat k) xs))"

text \<open>\<open>s.includes(q)\<close>.\<close>

fun strIncludes :: "string \<Rightarrow> string \<Rightarrow> bool" where
  "strIncludes [] q = (q = [])"
| "strIncludes (c # cs) q = (take (length q) (c # cs) = q \<or> strIncludes cs q)"

subsection \<open>\<open>sortMetas\<close> of the catalog endpoint\<close>

text \<open>
  \<^verbatim>\<open>const normalizeTitle = (s='') => String(s).replace(/^(the|a|an)\s+/i,'').trim();\<close>
  The alternatives are tried in the order written; each needs white space after it. The
  default parameter replaces \<open>undefined\<close> only: \<open>null\<close> prints as the string \<open>null\<close>.
\<close>

definition stripWord :: "string \<Rightarrow> string \<Rightarrow> string option" where
  "stripWord art s =
     (let n = length art; r = drop n s
      in if toLowerCase (take n s) = art \<and> r \<noteq> [] \<and> isSpace (hd r)
         then Some (dropWhile isSpace r) else None)"

definition stripArticle :: "string \<Rightarrow> string" where
  "stripArticle s =
     (case stripWord ''the'' s of Some r \<Rightarrow> r
      | None \<Rightarrow> (case stripWord ''a'' s of Some r \<Rightarrow> r
        | None \<Rightarrow> (case stripWord ''an'' s of Some r \<Rightarrow> r | None \<Rightarrow> s)))"

definition normalizeTitle :: "nameField \<Rightarrow> string" where
  "normalizeTitle n =
     trim (stripArticle (case n of Undefined \<Rightarrow> [] | Null \<Rightarrow> ''null'' | Str s \<Rightarrow> s))"

text \<open>
  \<^verbatim>\<open>
  const getYear = m => toNum(m.year || (m.releaseInfo && m.releaseInfo.slice(0,4)));
  const getRating = m => toNum((m.rating && (m.rating.imdb || m.rating)) || m.imdbRating || m.imdb_rating);
  const getRuntime = m => toNum(m.runtimeMinutes || m.runtime);\<close>
  A number has no \<open>slice\<close>: a truthy numeric \<open>releaseInfo\<close> throws a TypeError. An object
  that reaches \<open>toNum\<close> prints without a digit and counts 0.
\<close>

definition getYear :: "meta \<Rightarrow> jserr + jsnum" where
  "getYear m =
     (if truthyS (year m) then Inr (toNum (year m))
      else (case releaseInfo m of
              StrV s \<Rightarrow> Inr (toNum (StrV (take 4 s)))
            | NumV r \<Rightarrow> if r = 0 then Inr (Num 0) else Inl TypeError
            | Absent \<Rightarrow> Inr (Num 0)))"

definition getRating :: "meta \<Rightarrow> jsnum" where
  "getRating m =
     (case rating m of
        RObj i \<Rightarrow> if truthyS i then toNum i else Num 0
      | RScalar v \<Rightarrow> if truthyS v then toNum v else toNum (sOr (imdbRating m) (imdb_rating m)))"

definition getRuntime :: "meta \<Rightarrow> jsnum" where
  "getRuntime m = toNum (sOr (runtimeMinutes m) (runtime m))"

datatype sortKind = ByYear | ByRating | ByRuntime | ByName | ByAdded

definition sortKind :: "string \<Rightarrow> sortKind" where
  "sortKind sortKey =
     (let key = toLowerCase sortKey in
      if key = ''year'' then ByYear
      else if key = ''rating'' then ByRating
      else if key = ''runtime'' then ByRuntime
      else if key = ''name'' \<or> key = ''title'' \<or> key = ''alphabetical'' then ByName
      else ByAdded)"

text \<open>\<open>dir\<close>: \<open>-1\<close> for the order \<open>desc\<close> in any letter case, else \<open>1\<close>; the empty order is \<open>asc\<close>.\<close>

definition sortDir :: "string \<Rightarrow> int" where
  "sortDir order = (if toLowerCase (if order = [] then ''asc'' else order) = ''desc'' then - 1 else 1)"

text \<open>
  The comparator of the decorated sort, on pairs of an item and its position:
  \<^verbatim>\<open>
  const d = cmp(A[0], B[0], A[1], B[1]);
  if (d === 0) return A[1] - B[1];
  return d * dir;\<close>
  A NaN result counts as 0 in \<open>sort\<close>.
\<close>

definition decorCmp :: "('a \<Rightarrow> 'a \<Rightarrow> int option) \<Rightarrow> int \<Rightarrow> 'a \<times> nat \<Rightarrow> 'a \<times> nat \<Rightarrow> int" where
  "decorCmp cmp dir A B =
     (case cmp (fst A) (fst B) of
        None \<Rightarrow> 0
      | Some d \<Rightarrow> if d = 0 then int (snd A) - int (snd B) else d * dir)"

definition decorSort :: "('a \<Rightarrow> 'a \<Rightarrow> int option) \<Rightarrow> int \<Rightarrow> 'a list \<Rightarrow> 'a list" where
  "decorSort cmp dir arr = map fst (jsSort (decorCmp cmp dir) (zip arr [0 ..< length arr]))"

text \<open>
  \<open>sortMetas\<close>. \<open>localeCompare\<close> stands for
  \<open>a.localeCompare(b, undefined, {numeric: true, sensitivity: 'base'})\<close>, the collation of
  the platform. The comparator runs on every element of an array of two or more, so a
  throwing \<open>getYear\<close> makes the sort throw.
\<close>

definition sortMetas ::
  "(string \<Rightarrow> string \<Rightarrow> int) \<Rightarrow> meta list \<Rightarrow> string \<Rightarrow> string \<Rightarrow> jserr + meta list" where
  "sortMetas localeCompare arr sortKey order =
     (let dir = sortDir order in
      case sortKind sortKey of
        ByYear \<Rightarrow>
          if 2 \<le> length arr \<and> list_ex (\<lambda>m. getYear m = Inl TypeError) arr then Inl TypeError
          else Inr (decorSort (\<lambda>a b. numDiff (projr (getYear a)) (projr (getYear b))) dir arr)
      | ByRating \<Rightarrow> Inr (decorSort (\<lambda>a b. numDiff (getRating a) (getRating b)) dir arr)
      | ByRuntime \<Rightarrow> Inr (decorSort (\<lambda>a b. numDiff (getRuntime a) (getRuntime b)) dir arr)
      | ByName \<Rightarrow>
          Inr (decorSort (\<lambda>a b. Some (localeCompare (normalizeTitle (mname a))
                                                     (normalizeTitle (mname b)))) dir arr)
      | ByAdded \<Rightarrow> Inr (if dir = - 1 then rev arr else arr))"

text \<open>
  A stand-in collation for examples: lower-cased strings in code-unit order. On strings
  of ASCII letters it orders as the platform collation with sensitivity \<open>base\<close> does.
\<close>

definition baseCompare :: "string \<Rightarrow> string \<Rightarrow> int" where
  "baseCompare a b =
     (let x = toLowerCase a; y = toLowerCase b in if x < y then - 1 else if x = y then 0 else 1)"


subsection \<open>\<open>applySearchAndSort\<close> of the prefetch library\<close>

text \<open>
  The options object. A missing \<open>skip\<close> is 0 and a missing \<open>limit\<close> is 100 (the default
  parameters); both are integers when given.
\<close>

record queryOpts =
  qsearch :: "string option"
  qsort :: "string option"
  qorder :: "string option"
  qskip :: "int option"
  qlimit :: "int option"

definition idOf :: "meta \<Rightarrow> string" where
  "idOf x = mid x"

definition nameRaw :: "meta \<Rightarrow> string" where
  "nameRaw x = nameStr (mname x)"

definition nameLc :: "meta \<Rightarrow> string" where
  "nameLc x = toLowerCase (nameRaw x)"

text \<open>
  \<^verbatim>\<open>
  case 'year':    return Number(x?.year || 0);
  case 'rating':  return Number(x?.imdbRating || x?.rating || 0);
  case 'runtime': return Number(x?.runtime || 0);
  case 'added': default: return Number(x?.addedAt || 0);\<close>
  An object \<open>rating\<close> is truthy and converts to NaN.
\<close>

definition valOf :: "string \<Rightarrow> meta \<Rightarrow> jsnum" where
  "valOf sortKey x =
     (if sortKey = ''year'' then jsNumber (sOr (year x) (NumV 0))
      else if sortKey = ''rating'' then
        (if truthyS (imdbRating x) then jsNumber (imdbRating x)
         else (case rating x of
                 RObj i \<Rightarrow> NaN
               | RScalar v \<Rightarrow> jsNumber (sOr v (NumV 0))))
      else if sortKey = ''runtime'' then jsNumber (sOr (runtime x) (NumV 0))
      else jsNumber (sOr (addedAt x) (NumV 0)))"

text \<open>The comparator handed to \<open>out.sort\<close>; \<open>desc\<close> is \<open>sortOrder === 'desc'\<close>.\<close>

definition idCmp :: "meta \<Rightarrow> meta \<Rightarrow> int" where
  "idCmp a b = (if idOf a < idOf b then - 1 else if idOf b < idOf a then 1 else 0)"

definition searchCmp :: "string \<Rightarrow> bool \<Rightarrow> meta \<Rightarrow> meta \<Rightarrow> int" where
  "searchCmp sortKey desc a b =
     (let sgn = (if desc then - 1 else 1) in
      if sortKey = ''name'' then
        (if nameLc a \<noteq> nameLc b then (if nameLc a < nameLc b then - 1 else 1) * sgn
         else if nameRaw a \<noteq> nameRaw b then (if nameRaw a < nameRaw b then - 1 else 1) * sgn
         else idCmp a b)
      else
        (if numNeq (valOf sortKey a) (valOf sortKey b)
           then (if numLess (valOf sortKey a) (valOf sortKey b) then - 1 else 1) * sgn
         else if nameLc a \<noteq> nameLc b then (if nameLc a < nameLc b then - 1 else 1)
         else idCmp a b))"

definition truthyStr :: "string option \<Rightarrow> bool" where
  "truthyStr x = (case x of None \<Rightarrow> False | Some v \<Rightarrow> v \<noteq> [])"

definition applySearchAndSort :: "meta list \<Rightarrow> queryOpts \<Rightarrow> meta list" where
  "applySearchAndSort items opts =
     (let sortKey = (if truthyStr (qsort opts) then toLowerCase (the (qsort opts)) else ''added'');
          defaultOrder = (if sortKey = ''rating'' then ''desc'' else ''asc'');
          sortOrder = (if truthyStr (qorder opts) then toLowerCase (the (qorder opts)) else defaultOrder);
          out1 = (if truthyStr (qsearch opts)
                  then filter (\<lambda>x. strIncludes (nameLc x) (toLowerCase (the (qsearch opts)))) items
                  else items);
          out2 = jsSort (searchCmp sortKey (sortOrder = ''desc'')) out1;
          skip = (case qskip opts of None \<Rightarrow> 0 | Some k \<Rightarrow> k);
          limit = max 0 (min (intOr (Some (case qlimit opts of None \<Rightarrow> 100 | Some l \<Rightarrow> l)) 50) 500)
      in jsSlice out2 skip (skip + limit))"





text \<open>
  A key that orders the numbers as \<open><\<close> does: lists of rationals in dictionary order,
  the infinities below and above every rational.
\<close>

definition numKey :: "jsnum \<Rightarrow> rat list" where
  "numKey v = (case v of Num r \<Rightarrow> [0, r] | NaN \<Rightarrow> [] | PosInf \<Rightarrow> [1] | NegInf \<Rightarrow> [- 1])"

section \<open>Example data\<close>

definition mkItem :: "string \<Rightarrow> string \<Rightarrow> scalar \<Rightarrow> meta" where
  "mkItem i n r = blankMeta\<lparr>mid := i, mname := Str n, imdbRating := r\<rparr>"

definition ratedItems :: "meta list" where
  "ratedItems = [mkItem ''tt1'' ''Umbrella'' (StrV ''7.5''), mkItem ''tt2'' ''The Zebra'' (NumV 8),
                 mkItem ''tt3'' ''Box'' (StrV ''6.1'')]"





definition nameQuery :: "string \<Rightarrow> queryOpts" where
  "nameQuery ord = \<lparr>qsearch = None, qsort = Some ''name'', qorder = Some ord,
                     qskip = None, qlimit = None\<rparr>"





section \<open>The in-memory cache and the metadata service\<close>

text \<open>
  \<^verbatim>\<open>
  const mem = new Map(); // key -> { v, exp }
  function getCache(key) {
    const x = mem.get(key);
    if (!x) return null;
    if (x.exp && x.exp < now()) { mem.delete(key); return null; }
    return x.v; }
  function setCache(key, v, ttlSec = TTL_SEC) {
    mem.set(key, { v, exp: now() + ttlSec * 1000 });
    return v; }\<close>
  The keys of the map are \<open>ls:<list>\<close>, \<open>meta:<type>:<id>\<close> and \<open>stats:<list>\<close>. No key
  of one family is a key of another, so the map is kept as one map per family, each
  with the values of its family; \<open>getCache\<close> and \<open>setCache\<close> work on any of them. The
  time is \<open>Date.now()\<close> in milliseconds.
\<close>

definition getCache :: "'k \<Rightarrow> int \<Rightarrow> ('k \<rightharpoonup> 'v \<times> int) \<Rightarrow> 'v option \<times> ('k \<rightharpoonup> 'v \<times> int)" where
  "getCache key t mem =
     (case mem key of
        None \<Rightarrow> (None, mem)
      | Some (v, expiry) \<Rightarrow>
          if expiry \<noteq> 0 \<and> expiry < t then (None, mem(key := None)) else (Some v, mem))"

definition setCache :: "'k \<Rightarrow> 'v \<Rightarrow> int \<Rightarrow> int \<Rightarrow> ('k \<rightharpoonup> 'v \<times> int) \<Rightarrow> ('k \<rightharpoonup> 'v \<times> int)" where
  "setCache key v ttlSec t mem = mem(key \<mapsto> (v, t + ttlSec * 1000))"

datatype bucket = Movie | Series

definition typeStr :: "bucket \<Rightarrow> string" where
  "typeStr b = (case b of Movie \<Rightarrow> ''movie'' | Series \<Rightarrow> ''series'')"

text \<open>
  What a request to the metadata service gives: the fetch rejects, the status is not a
  success, the body does not parse, or the body parses and holds a truthy \<open>meta\<close> or
  none.
\<close>

datatype metaResp = RThrow | RNotOk | RBadJson | RBody "meta option"

record listInfo =
  title :: string
  ids :: "string list"

record stats =
  sMovie :: "int option"
  sSeries :: "int option"

text \<open>
  The world outside: the metadata service, the outcome of scraping a list (a title if
  one was found, and the ids), the configured TTL in seconds and the time one external
  request takes.
\<close>

record env =
  TTL_SEC :: int
  cinemeta :: "bucket \<Rightarrow> string \<Rightarrow> metaResp"
  scrape :: "string \<Rightarrow> string option \<times> string list"
  fetchDelay :: nat

datatype call = MetaCall bucket string | ListCall string

record visRaw =
  vdiscover :: "bool option"
  vhome :: "bool option"

text \<open>
  An entry of a user's lists: an object with \<open>id\<close>, \<open>lsid\<close>, \<open>showIn\<close> and
  \<open>visibility\<close>, each possibly missing (the empty string for a missing id). A bare
  string entry is the entry with that \<open>lid\<close> and nothing else.
\<close>

record listEntry =
  lid :: string
  llsid :: string
  showIn :: "string option"
  visMovie :: "visRaw option"
  visSeries :: "visRaw option"

text \<open>
  The state of the process: the three families of the cache, the clock, the log of
  external requests and the users. The value of a \<open>stats:<list>\<close> entry is an object that
  \<open>hasType\<close> and \<open>bumpStats\<close> change in place and that a waiting call of \<open>hasType\<close>
  keeps a reference to, so the cache holds the address of the object and \<open>statsObjs\<close>
  holds the objects; \<open>nextObj\<close> is the first address not in use.
\<close>

record sys =
  listCache :: "string \<rightharpoonup> listInfo \<times> int"
  metaCache :: "bucket \<times> string \<rightharpoonup> meta \<times> int"
  statsCache :: "string \<rightharpoonup> nat \<times> int"
  statsObjs :: "nat \<Rightarrow> stats"
  nextObj :: nat
  now :: int
  calls :: "call list"
  users :: "string \<rightharpoonup> listEntry list"

text \<open>An external request is logged and takes its time.\<close>

definition externalCall :: "env \<Rightarrow> call \<Rightarrow> sys \<Rightarrow> sys" where
  "externalCall e c s = s\<lparr>calls := calls s @ [c], now := now s + int (fetchDelay e)\<rparr>"

text \<open>
  \<^verbatim>\<open>
  async function getMeta(type, tt) {
    const ck = `meta:${type}:${tt}`;
    const c = getCache(ck);
    if (c) return c;
    try {
      const r = await fetch(`${CIN_BASE}/${type}/${tt}.json`, ...);
      if (!r.ok) return null;
      const j = await r.json();
      const meta = (j && j.meta) ? j.meta : null;
      if (meta) setCache(ck, meta);
      return meta;
    } catch { return null; } }\<close>
  \<open>getMetaTry\<close> is the body of the \<open>try\<close>, \<open>Inl\<close> where it throws.
\<close>

definition getMetaTry :: "env \<Rightarrow> bucket \<Rightarrow> string \<Rightarrow> sys \<Rightarrow> (jserr + meta option) \<times> sys" where
  "getMetaTry e b tt s =
     (let s1 = externalCall e (MetaCall b tt) s in
      case cinemeta e b tt of
        RThrow \<Rightarrow> (Inl NetworkError, s1)
      | RNotOk \<Rightarrow> (Inr None, s1)
      | RBadJson \<Rightarrow> (Inl SyntaxError, s1)
      | RBody None \<Rightarrow> (Inr None, s1)
      | RBody (Some m) \<Rightarrow>
          (Inr (Some m),
           s1\<lparr>metaCache := setCache (b, tt) m (TTL_SEC e) (now s1) (metaCache s1)\<rparr>))"

definition getMeta :: "env \<Rightarrow> bucket \<Rightarrow> string \<Rightarrow> sys \<Rightarrow> meta option \<times> sys" where
  "getMeta e b tt s =
     (case getCache (b, tt) (now s) (metaCache s) of
        (Some m, mc) \<Rightarrow> (Some m, s\<lparr>metaCache := mc\<rparr>)
      | (None, mc) \<Rightarrow>
          (case getMetaTry e b tt (s\<lparr>metaCache := mc\<rparr>) of
             (Inl err, s') \<Rightarrow> (None, s')
           | (Inr r, s') \<Rightarrow> (r, s')))"

text \<open>
  \<^verbatim>\<open>
  async function getTypedMetaDeterministic(type, tt) {
    // If there is a SERIES meta, it is a series: never show it under movies.
    if (type === 'movie') {
      const s = await getMeta('series', tt);
      if (s) return null;
      return await getMeta('movie', tt);
    } else { return await getMeta('series', tt); } }\<close>
\<close>

definition getTypedMetaDeterministic :: "env \<Rightarrow> bucket \<Rightarrow> string \<Rightarrow> sys \<Rightarrow> meta option \<times> sys" where
  "getTypedMetaDeterministic e b tt s =
     (case b of
        Movie \<Rightarrow> (case getMeta e Series tt s of
                     (Some sm, s1) \<Rightarrow> (None, s1)
                   | (None, s1) \<Rightarrow> getMeta e Movie tt s1)
      | Series \<Rightarrow> getMeta e Series tt s)"

text \<open>
  \<open>typedPage\<close>. The body of the worker loop for one id is \<open>typedSlot\<close>; the pool of
  workers is run one id at a time in list order, which gives every slot the value the
  pool gives it when the service answers a request the same way each time.
  \<^verbatim>\<open>
  const meta = await getTypedMetaDeterministic(type, tt);
  if (!meta) continue;
  if (meta.type && String(meta.type).toLowerCase() !== type) continue;
  if (search && !String(meta.name||'').toLowerCase().includes(search)) continue;
  slots[my] = meta;\<close>
\<close>

definition typedSlot :: "env \<Rightarrow> bucket \<Rightarrow> string \<Rightarrow> string \<Rightarrow> sys \<Rightarrow> meta option \<times> sys" where
  "typedSlot e b search tt s =
     (case getTypedMetaDeterministic e b tt s of
        (None, s1) \<Rightarrow> (None, s1)
      | (Some m, s1) \<Rightarrow>
          if mtype m \<noteq> [] \<and> toLowerCase (mtype m) \<noteq> typeStr b then (None, s1)
          else if search \<noteq> [] \<and> \<not> strIncludes (toLowerCase (nameRaw m)) search then (None, s1)
          else (Some m, s1))"

fun typedSlots :: "env \<Rightarrow> bucket \<Rightarrow> string \<Rightarrow> string list \<Rightarrow> sys \<Rightarrow> meta option list \<times> sys" where
  "typedSlots e b search [] s = ([], s)"
| "typedSlots e b search (tt # tts) s =
     (case typedSlot e b search tt s of
        (r, s1) \<Rightarrow> (case typedSlots e b search tts s1 of (rs, s2) \<Rightarrow> (r # rs, s2)))"

text \<open>
  The caller passes numbers for \<open>skip\<close> and \<open>limit\<close>:
  \<^verbatim>\<open>
  const skip  = Math.max(0, parseInt(opts.skip || 0, 10) || 0);
  const limit = Math.max(1, parseInt(opts.limit || 50, 10) || 50);
  const search = String(opts.search || '').toLowerCase().trim();
  ...
  for (let k = 0; k < slots.length && ordered.length < (skip + limit); k++)
    if (slots[k]) ordered.push(slots[k]);
  return ordered;\<close>
\<close>

definition typedPage ::
  "env \<Rightarrow> bucket \<Rightarrow> string list \<Rightarrow> int \<Rightarrow> int \<Rightarrow> string \<Rightarrow> sys \<Rightarrow> meta list \<times> sys" where
  "typedPage e b idList skipOpt limitOpt searchOpt s =
     (let skip = max 0 (intOr (Some skipOpt) 0);
          limit = max 1 (intOr (Some limitOpt) 50);
          search = trim (toLowerCase searchOpt)
      in case typedSlots e b search idList s of
           (slots, s1) \<Rightarrow> (take (nat (skip + limit)) (List.map_filter id slots), s1))"

text \<open>
  \<open>fetchImdbIds\<close>: the cached value for the list, else the outcome of scraping it (the
  loop over pages and URL variants is inside \<open>scrape\<close>), cached under the default TTL.
  \<^verbatim>\<open>const val = { title: title || `IMDb List ${lsid}`, ids }; return setCache(ck, val);\<close>
\<close>

definition fetchImdbIds :: "env \<Rightarrow> string \<Rightarrow> sys \<Rightarrow> listInfo \<times> sys" where
  "fetchImdbIds e lsid s =
     (case getCache lsid (now s) (listCache s) of
        (Some info, lc) \<Rightarrow> (info, s\<lparr>listCache := lc\<rparr>)
      | (None, lc) \<Rightarrow>
          (let s1 = externalCall e (ListCall lsid) (s\<lparr>listCache := lc\<rparr>);
               val = \<lparr>title = strOr (fst (scrape e lsid)) (''IMDb List '' @ lsid),
                      ids = snd (scrape e lsid)\<rparr>
           in (val, s1\<lparr>listCache := setCache lsid val (TTL_SEC e) (now s1) (listCache s1)\<rparr>)))"

section \<open>Type statistics\<close>

definition statsGet :: "stats \<Rightarrow> bucket \<Rightarrow> int option" where
  "statsGet st b = (case b of Movie \<Rightarrow> sMovie st | Series \<Rightarrow> sSeries st)"

definition statsSet :: "stats \<Rightarrow> bucket \<Rightarrow> int \<Rightarrow> stats" where
  "statsSet st b n = (case b of Movie \<Rightarrow> st\<lparr>sMovie := Some n\<rparr> | Series \<Rightarrow> st\<lparr>sSeries := Some n\<rparr>)"

definition noStats :: stats where
  "noStats = \<lparr>sMovie = None, sSeries = None\<rparr>"

text \<open>
  \<^verbatim>\<open>const stats = getCache(ck) || { movie: null, series: null };\<close>
  The object the cache holds for the list, or a new one that is not in the cache yet.
\<close>

definition newStats :: "sys \<Rightarrow> nat \<times> sys" where
  "newStats s =
     (nextObj s, s\<lparr>statsObjs := (statsObjs s)(nextObj s := noStats), nextObj := nextObj s + 1\<rparr>)"

definition statsRef :: "string \<Rightarrow> sys \<Rightarrow> nat \<times> sys" where
  "statsRef lsid s =
     (case getCache lsid (now s) (statsCache s) of
        (Some a, sc) \<Rightarrow> (a, s\<lparr>statsCache := sc\<rparr>)
      | (None, sc) \<Rightarrow> newStats (s\<lparr>statsCache := sc\<rparr>))"

text \<open>\<^verbatim>\<open>stats[t] = n; setCache(ck, stats, 12 * 3600);\<close> for the object at address \<open>a\<close>.\<close>

definition storeStats :: "string \<Rightarrow> nat \<Rightarrow> bucket \<Rightarrow> int \<Rightarrow> sys \<Rightarrow> sys" where
  "storeStats lsid a b n s =
     s\<lparr>statsObjs := (statsObjs s)(a := statsSet (statsObjs s a) b n),
       statsCache := setCache lsid a (12 * 3600) (now s) (statsCache s)\<rparr>"

text \<open>
  \<^verbatim>\<open>
  function bumpStats(lsid, type, countFound) {
    const ck = `stats:${lsid}`;
    const stats = getCache(ck) || { movie: null, series: null };
    const t = (type === 'movie') ? 'movie' : 'series';
    const prev = stats[t] || 0;
    const next = Math.max(prev, countFound);
    stats[t] = next;
    setCache(ck, stats, 12 * 3600); }\<close>
  The function does not wait: it runs from its first line to its last.
\<close>

definition bumpStats :: "string \<Rightarrow> bucket \<Rightarrow> int \<Rightarrow> sys \<Rightarrow> sys" where
  "bumpStats lsid b countFound s =
     (case statsRef lsid s of
        (a, s0) \<Rightarrow>
          (let prev = (case statsGet (statsObjs s0 a) b of None \<Rightarrow> 0 | Some n \<Rightarrow> n)
           in storeStats lsid a b (max prev countFound) s0))"

subsection \<open>\<open>hasType\<close>\<close>

text \<open>
  \<^verbatim>\<open>
  async function hasType(lsid, type, sample = 120) {
    const ck = `stats:${lsid}`;
    const stats = getCache(ck) || { movie: null, series: null };
    if (stats[type] !== null) return stats[type] > 0;
    const info = await fetchImdbIds(lsid);
    const ids = info.ids.slice(0, sample);
    let any = false;
    let i = 0;
    async function worker() {
      while (i < ids.length && !any) {
        const tt = ids[i++];
        const meta = await getMeta(type, tt);
        if (meta) { any = true; break; } } }
    await Promise.all(Array.from({ length: Math.min(CONC, 4) }, () => worker()));
    const count = any ? 1 : 0;
    stats[type] = count;
    setCache(ck, stats, 12 * 3600);
    return any; }\<close>
  The call has three parts. \<open>hasTypeRead\<close> is the part that runs before the call
  first waits: the answer when the object has a count for the type; else
  \<open>fetchImdbIds\<close> is entered, which looks into the cache and, on a miss, sends the
  request for the list, and the call goes on with the address of its object and the
  list, if the cache had it. \<open>hasTypeProbe\<close> is the waiting part, the answer for the
  list and the probe. \<open>hasTypeWrite\<close> is the part after the last \<open>await\<close>. While the
  call waits, other handlers run.
\<close>

definition fetchImdbIdsStart :: "string \<Rightarrow> sys \<Rightarrow> listInfo option \<times> sys" where
  "fetchImdbIdsStart lsid s =
     (case getCache lsid (now s) (listCache s) of
        (Some info, lc) \<Rightarrow> (Some info, s\<lparr>listCache := lc\<rparr>)
      | (None, lc) \<Rightarrow> (None, s\<lparr>listCache := lc, calls := calls s @ [ListCall lsid]\<rparr>))"

definition fetchImdbIdsFinish :: "env \<Rightarrow> string \<Rightarrow> sys \<Rightarrow> listInfo \<times> sys" where
  "fetchImdbIdsFinish e lsid s =
     (let s1 = s\<lparr>now := now s + int (fetchDelay e)\<rparr>;
          val = \<lparr>title = strOr (fst (scrape e lsid)) (''IMDb List '' @ lsid),
                 ids = snd (scrape e lsid)\<rparr>
      in (val, s1\<lparr>listCache := setCache lsid val (TTL_SEC e) (now s1) (listCache s1)\<rparr>))"

datatype probeStart = Decided bool | Probing nat "listInfo option"

definition hasTypeRead :: "string \<Rightarrow> bucket \<Rightarrow> sys \<Rightarrow> probeStart \<times> sys" where
  "hasTypeRead lsid b s =
     (case statsRef lsid s of
        (a, s0) \<Rightarrow>
          (case statsGet (statsObjs s0 a) b of
             Some n \<Rightarrow> (Decided (0 < n), s0)
           | None \<Rightarrow> (case fetchImdbIdsStart lsid s0 of (c, s1) \<Rightarrow> (Probing a c, s1))))"

definition hasTypeWrite :: "string \<Rightarrow> bucket \<Rightarrow> nat \<Rightarrow> bool \<Rightarrow> sys \<Rightarrow> sys" where
  "hasTypeWrite lsid b a any s = storeStats lsid a b (if any then 1 else 0) s"

text \<open>
  The probe runs four workers over one cursor. A worker takes the next id and starts
  \<open>getMeta\<close> for it, which looks into the cache and, on a miss, sends the request; then the
  worker waits. \<open>getMetaStart\<close> is that first part of \<open>getMeta\<close>: the record found in the
  cache, or \<open>None\<close> with the request logged. \<open>getMetaFinish\<close> is the part that runs when
  the answer is there.
\<close>

definition getMetaStart :: "env \<Rightarrow> bucket \<Rightarrow> string \<Rightarrow> sys \<Rightarrow> meta option \<times> sys" where
  "getMetaStart e b tt s =
     (case getCache (b, tt) (now s) (metaCache s) of
        (Some m, mc) \<Rightarrow> (Some m, s\<lparr>metaCache := mc\<rparr>)
      | (None, mc) \<Rightarrow> (None, s\<lparr>metaCache := mc, calls := calls s @ [MetaCall b tt]\<rparr>))"

definition getMetaFinish :: "env \<Rightarrow> bucket \<Rightarrow> string \<Rightarrow> sys \<Rightarrow> meta option \<times> sys" where
  "getMetaFinish e b tt s =
     (case cinemeta e b tt of
        RBody (Some m) \<Rightarrow>
          (Some m, s\<lparr>metaCache := setCache (b, tt) m (TTL_SEC e) (now s) (metaCache s)\<rparr>)
      | RBody None \<Rightarrow> (None, s)
      | RThrow \<Rightarrow> (None, s)
      | RNotOk \<Rightarrow> (None, s)
      | RBadJson \<Rightarrow> (None, s))"

text \<open>The workers start one after the other, before any answer is read.\<close>

fun startWorkers ::
  "env \<Rightarrow> bucket \<Rightarrow> string list \<Rightarrow> sys \<Rightarrow> (string \<times> meta option) list \<times> sys" where
  "startWorkers e b [] s = ([], s)"
| "startWorkers e b (tt # tts) s =
     (case getMetaStart e b tt s of
        (c, s1) \<Rightarrow> (case startWorkers e b tts s1 of (ws, s2) \<Rightarrow> ((tt, c) # ws, s2)))"

text \<open>
  The waiting workers resume in an order the code does not fix. A schedule names, step
  by step, the waiting worker that resumes and the time that has passed since the step
  before; when it runs out, the first waiting worker resumes after the time of one
  request. The worker that resumes has its answer: a record ends the probe for it and
  sets \<open>any\<close>; without one it takes the next id if there is one and \<open>any\<close> is not set, and
  ends otherwise.
\<close>

function probeRun ::
  "env \<Rightarrow> bucket \<Rightarrow> string list \<Rightarrow> (nat \<times> nat) list \<Rightarrow> nat \<Rightarrow> bool
     \<Rightarrow> (string \<times> meta option) list \<Rightarrow> sys \<Rightarrow> bool \<times> sys" where
  "probeRun e b idList sched i any waiting s =
     (if waiting = [] then (any, s)
      else
        (let k = (case sched of [] \<Rightarrow> 0 | x # xs \<Rightarrow> fst x mod length waiting);
             d = (case sched of [] \<Rightarrow> fetchDelay e | x # xs \<Rightarrow> snd x);
             others = take k waiting @ drop (Suc k) waiting;
             s1 = s\<lparr>now := now s + int d\<rparr>;
             r = (case snd (waiting ! k) of
                    Some m \<Rightarrow> (Some m, s1)
                  | None \<Rightarrow> getMetaFinish e b (fst (waiting ! k)) s1)
         in if fst r \<noteq> None then probeRun e b idList (tl sched) i True others (snd r)
            else if i < length idList \<and> \<not> any
              then probeRun e b idList (tl sched) (Suc i) any
                     (others @ [(idList ! i, fst (getMetaStart e b (idList ! i) (snd r)))])
                     (snd (getMetaStart e b (idList ! i) (snd r)))
            else probeRun e b idList (tl sched) i any others (snd r)))"
  by pat_completeness auto
termination
proof (relation "measure (\<lambda>(e, b, idList, sched, i, any, waiting, s). (length idList - i) + length waiting)",
       goal_cases)
  case 1
  show ?case by simp
next
  case (2 e b idList sched i any waiting s k d others)
  have "k < length waiting" using 2 by (auto split: list.splits)
  then show ?case using 2 by auto
next
  case (3 e b idList sched i any waiting s k d others)
  have "k < length waiting" using 3 by (auto split: list.splits)
  then show ?case using 3 by auto
next
  case (4 e b idList sched i any waiting s k d others)
  have "k < length waiting" using 4 by (auto split: list.splits)
  then show ?case using 4 by auto
qed

definition probePool ::
  "env \<Rightarrow> bucket \<Rightarrow> string list \<Rightarrow> (nat \<times> nat) list \<Rightarrow> sys \<Rightarrow> bool \<times> sys" where
  "probePool e b idList sched s =
     (case startWorkers e b (take 4 idList) s of
        (ws, s1) \<Rightarrow> probeRun e b idList sched (length ws) False ws s1)"

definition hasTypeProbe ::
  "env \<Rightarrow> (nat \<times> nat) list \<Rightarrow> string \<Rightarrow> bucket \<Rightarrow> listInfo option \<Rightarrow> sys \<Rightarrow> bool \<times> sys" where
  "hasTypeProbe e sched lsid b c s =
     (case (case c of Some info \<Rightarrow> (info, s) | None \<Rightarrow> fetchImdbIdsFinish e lsid s) of
        (info, s1) \<Rightarrow> probePool e b (take 120 (ids info)) sched s1)"

text \<open>A call of \<open>hasType\<close> during which no other handler runs.\<close>

definition hasType ::
  "env \<Rightarrow> (nat \<times> nat) list \<Rightarrow> string \<Rightarrow> bucket \<Rightarrow> sys \<Rightarrow> bool \<times> sys" where
  "hasType e sched lsid b s =
     (case hasTypeRead lsid b s of
        (Decided r, s0) \<Rightarrow> (r, s0)
      | (Probing a c, s0) \<Rightarrow>
          (case hasTypeProbe e sched lsid b c s0 of
             (any, s2) \<Rightarrow> (any, hasTypeWrite lsid b a any s2)))"

section \<open>Example worlds\<close>

definition emptySys :: sys where
  "emptySys = \<lparr>listCache = Map.empty, metaCache = Map.empty, statsCache = Map.empty,
               statsObjs = (\<lambda>a. noStats), nextObj = 0, now = 1000, calls = [],
               users = Map.empty\<rparr>"


text \<open>
  A service that knows \<open>tt1\<close> as a movie only, \<open>tt2\<close> as a series only and \<open>tt3\<close> as
  both, and a list \<open>ls1\<close> that holds the three.
\<close>

definition movieOf :: "string \<Rightarrow> meta" where
  "movieOf tt = blankMeta\<lparr>mid := tt, mtype := ''movie'', mname := Str (''Film '' @ tt)\<rparr>"

definition seriesOf :: "string \<Rightarrow> meta" where
  "seriesOf tt = blankMeta\<lparr>mid := tt, mtype := ''series'', mname := Str (''Show '' @ tt)\<rparr>"

definition demoService :: "bucket \<Rightarrow> string \<Rightarrow> metaResp" where
  "demoService b tt =
     (case b of
        Movie \<Rightarrow> if tt = ''tt1'' \<or> tt = ''tt3'' then RBody (Some (movieOf tt)) else RNotOk
      | Series \<Rightarrow> if tt = ''tt2'' \<or> tt = ''tt3'' then RBody (Some (seriesOf tt)) else RNotOk)"

definition demoEnv :: env where
  "demoEnv = \<lparr>TTL_SEC = 1800, cinemeta = demoService,
              scrape = (\<lambda>l. if l = ''ls1'' then (Some ''Demo'', [''tt1'', ''tt2'', ''tt3'']) else (None, [])),
              fetchDelay = 5\<rparr>"

text \<open>
  The counter a reader finds for a list and a type, as \<open>bumpStats\<close> reads its \<open>prev\<close>: 0
  when there is no entry, when the entry has expired or when the object has no count.
\<close>

definition liveCount :: "sys \<Rightarrow> string \<Rightarrow> bucket \<Rightarrow> int" where
  "liveCount s lsid b =
     (case fst (getCache lsid (now s) (statsCache s)) of
        None \<Rightarrow> 0
      | Some a \<Rightarrow> (case statsGet (statsObjs s a) b of None \<Rightarrow> 0 | Some n \<Rightarrow> n))"

section \<open>Users and visibility\<close>

text \<open>
  \<^verbatim>\<open>
  function getUser(uid='default') {
    if (!users.has(uid)) users.set(uid, { uid, lists: [] });
    return users.get(uid); }\<close>
\<close>

definition getUser :: "string \<Rightarrow> sys \<Rightarrow> listEntry list \<times> sys" where
  "getUser uid s =
     (case users s uid of
        Some ls \<Rightarrow> (ls, s)
      | None \<Rightarrow> ([], s\<lparr>users := (users s)(uid \<mapsto> [])\<rparr>))"

record vis =
  discover :: bool
  home :: bool

definition emptyEntry :: listEntry where
  "emptyEntry = \<lparr>lid = [], llsid = [], showIn = None, visMovie = None, visSeries = None\<rparr>"

text \<open>
  \<^verbatim>\<open>
  function visibilityFor(list) {
    const legacy = String(list.showIn || 'discover').toLowerCase();
    const base = { discover: legacy === 'discover' || legacy === 'both',
                   home:     legacy === 'home'     || legacy === 'both' };
    const mv = (list.visibility && list.visibility.movie)  || base;
    const sv = (list.visibility && list.visibility.series) || base;
    return { movie:  { discover: !!mv.discover,  home: !!mv.home },
             series: { discover: !!sv.discover,  home: !!sv.home } }; }\<close>
\<close>

definition visSide :: "vis \<Rightarrow> visRaw option \<Rightarrow> vis" where
  "visSide base v =
     (case v of
        None \<Rightarrow> base
      | Some r \<Rightarrow> \<lparr>discover = (vdiscover r = Some True), home = (vhome r = Some True)\<rparr>)"

definition visibilityFor :: "listEntry \<Rightarrow> bucket \<Rightarrow> vis" where
  "visibilityFor l b =
     (let legacy = toLowerCase (strOr (showIn l) ''discover'');
          base = \<lparr>discover = (legacy = ''discover'' \<or> legacy = ''both''),
                  home = (legacy = ''home'' \<or> legacy = ''both'')\<rparr>
      in case b of Movie \<Rightarrow> visSide base (visMovie l) | Series \<Rightarrow> visSide base (visSeries l))"

section \<open>The catalog endpoint\<close>

text \<open>
  \<^verbatim>\<open>const m = catalogId.match(/^imdb-(.+?)-(ls\d+)-(movies|series)$/i);\<close>
  The end of the string fixes the match: a suffix \<open>-movies\<close> or \<open>-series\<close>, before it the
  digits, before them \<open>ls\<close> and a hyphen, and before that a uid of at least one
  character with no line terminator in it. The result is \<open>(m[1], m[2])\<close>.
\<close>

definition isLineTerm :: "char \<Rightarrow> bool" where
  "isLineTerm c = (c = CHR 0x0A \<or> c = CHR 0x0D)"

definition catalogIdMatch :: "string \<Rightarrow> (string \<times> string) option" where
  "catalogIdMatch cid =
     (if toLowerCase (take 5 cid) \<noteq> ''imdb-'' then None
      else let rest = drop 5 cid; n = length rest in
        if n < 7 then None
        else let sfx = toLowerCase (drop (n - 7) rest); core = take (n - 7) rest in
          if sfx \<noteq> ''-movies'' \<and> sfx \<noteq> ''-series'' then None
          else let ds = rev (takeWhile isDigit (rev core));
                   pre = take (length core - length ds) core;
                   k = length pre in
            if ds = [] \<or> k < 4 then None
            else let uid = take (k - 3) pre; mid3 = drop (k - 3) pre in
              if toLowerCase mid3 \<noteq> ''-ls'' \<or> list_ex isLineTerm uid then None
              else Some (uid, drop 1 mid3 @ ds))"

text \<open>\<open>(xs[i] || d)\<close> for an array of strings.\<close>

definition nthOr :: "string list \<Rightarrow> nat \<Rightarrow> string \<Rightarrow> string" where
  "nthOr xs i d = (if i < length xs \<and> xs ! i \<noteq> [] then xs ! i else d)"

text \<open>
  The request as the handler reads it: the outcome of \<open>getUidFromReq\<close> (which throws on
  a malformed cookie), the two route parameters, the merged extras
  \<open>{ ...parseExtrasFromParam(req), ...readExtras(req) }\<close> (\<open>readExtras\<close> throws on a
  malformed path segment) and the outcome of \<open>getGenreFromReq\<close>.
\<close>

record request =
  reqUid :: "jserr + string"
  ptype :: string
  pcatalogId :: string
  reqExtras :: "jserr + (string \<rightharpoonup> string)"
  reqGenre :: "jserr + string"

datatype body = Metas "meta list" | ErrBody string

record response =
  status :: nat
  body :: body

definition emptyOk :: response where
  "emptyOk = \<lparr>status = 200, body = Metas []\<rparr>"

text \<open>
  The block that decides whether the catalog is home-only:
  \<^verbatim>\<open>
  const type = (req.params.type || '').toLowerCase();
  const catalogId = req.params.catalogId || '';
  const uidFromId = (catalogId.split('-')[1] || 'default');
  const lsid = (catalogId.split('-')[2] || '');
  const uVis = getUser(uidFromId);
  const listObj = (uVis.lists || []).find(x => (x.id || x) === lsid) || {};
  const vis = visibilityFor(listObj);
  const tVis = (type === 'movie') ? vis.movie : vis.series;
  var __isHomeOnly = !!(tVis && tVis.home && !tVis.discover);\<close>
\<close>

definition findEntry :: "listEntry list \<Rightarrow> string \<Rightarrow> listEntry" where
  "findEntry ls lsid =
     (case find (\<lambda>x. lid x \<noteq> [] \<and> lid x = lsid) ls of None \<Rightarrow> emptyEntry | Some x \<Rightarrow> x)"

definition isHomeOnly :: "string \<Rightarrow> string \<Rightarrow> sys \<Rightarrow> bool \<times> sys" where
  "isHomeOnly tp catalogId s =
     (let parts = splitOn (CHR ''-'') catalogId;
          uidFromId = nthOr parts 1 ''default'';
          lsid = nthOr parts 2 []
      in case getUser uidFromId s of
           (ls, s1) \<Rightarrow>
             (let tVis = visibilityFor (findEntry ls lsid)
                           (if toLowerCase tp = ''movie'' then Movie else Series)
              in (home tVis \<and> \<not> discover tVis, s1)))"

text \<open>
  The part of the handler after the home-only check: the ids of the list, the typed
  metas, the genre filter, the sort, the page and the statistics.
  \<^verbatim>\<open>
  const info = await fetchImdbIds(lsid);
  const ids = info.ids || [];
  let metas = await typedPage(type, ids, { skip: 0, limit: Math.max(limit + skip, 80), search });
  if (genreRaw && String(genreRaw).toLowerCase() !== 'top') { ... metas = metas.filter(...) }
  const sort = extras.sort || null;
  const order = extras.order || 'asc';
  if (sort) metas = sortMetas(metas, sort, order);
  metas = metas.slice(skip, skip + limit);
  if (metas && metas.length) bumpStats(lsid, type, metas.length);
  res.json({ metas });\<close>
\<close>

definition genreFilter :: "string \<Rightarrow> meta list \<Rightarrow> meta list" where
  "genreFilter genreRaw metas =
     (if genreRaw \<noteq> [] \<and> toLowerCase genreRaw \<noteq> ''top''
      then filter (genreMatches genreRaw) metas else metas)"

definition sortStage ::
  "(string \<Rightarrow> string \<Rightarrow> int) \<Rightarrow> (string \<rightharpoonup> string) \<Rightarrow> meta list \<Rightarrow> jserr + meta list" where
  "sortStage localeCompare extras metas =
     (if truthyStr (extras ''sort'')
      then sortMetas localeCompare metas (the (extras ''sort'')) (strOr (extras ''order'') ''asc'')
      else Inr metas)"

definition servePage ::
  "env \<Rightarrow> (string \<Rightarrow> string \<Rightarrow> int) \<Rightarrow> bucket \<Rightarrow> string \<Rightarrow> (string \<rightharpoonup> string) \<Rightarrow> string
     \<Rightarrow> sys \<Rightarrow> (jserr + response) \<times> sys" where
  "servePage e localeCompare b lsid extras genreRaw s =
     (let skip = catalogSkip (extras ''skip'');
          limit = catalogLimit (extras ''limit'');
          search = trim (strOr (extras ''search'') [])
      in case fetchImdbIds e lsid s of
           (info, s2) \<Rightarrow>
             (case typedPage e b (ids info) 0 (max (limit + skip) 80) search s2 of
                (metas, s3) \<Rightarrow>
                  (case sortStage localeCompare extras (genreFilter genreRaw metas) of
                     Inl err \<Rightarrow> (Inl err, s3)
                   | Inr ordered \<Rightarrow>
                       (let page = jsSlice ordered skip (skip + limit)
                        in (Inr \<lparr>status = 200, body = Metas page\<rparr>,
                            if page \<noteq> [] then bumpStats lsid b (int (length page)) s3 else s3)))))"

text \<open>
  The body of the \<open>try\<close> of \<open>handleCatalog\<close>, \<open>Inl\<close> where it throws.
  \<^verbatim>\<open>
  const { type, catalogId } = req.params;
  if (!['movie','series'].includes(type)) return res.json({ metas: [] });
  const m = catalogId.match(/^imdb-(.+?)-(ls\d+)-(movies|series)$/i);
  if (!m) return res.json({ metas: [] });
  const lsid = m[2].toLowerCase();
  const extras = { ...parseExtrasFromParam(req), ...readExtras(req) };
  ... home-only block ...
  const genreRaw = extras.genre || getGenreFromReq(req) || '';
  const __gCanon = String(genreRaw || 'Top').toLowerCase();
  if (__isHomeOnly) {
    if (__gCanon !== 'top' || (extras.search && String(extras.search).trim()))
      return res.json({ metas: [] }); }\<close>
\<close>

definition handleCatalogTry ::
  "env \<Rightarrow> (string \<Rightarrow> string \<Rightarrow> int) \<Rightarrow> request \<Rightarrow> sys \<Rightarrow> (jserr + response) \<times> sys" where
  "handleCatalogTry e localeCompare req s =
     (if ptype req \<noteq> ''movie'' \<and> ptype req \<noteq> ''series'' then (Inr emptyOk, s)
      else case catalogIdMatch (pcatalogId req) of
        None \<Rightarrow> (Inr emptyOk, s)
      | Some (uidFromId, lsidRaw) \<Rightarrow>
          (case reqExtras req of
             Inl err \<Rightarrow> (Inl err, s)
           | Inr extras \<Rightarrow>
               (case isHomeOnly (ptype req) (pcatalogId req) s of
                  (homeOnly, s1) \<Rightarrow>
                    (case (if truthyStr (extras ''genre'') then Inr (the (extras ''genre''))
                           else reqGenre req) of
                       Inl err \<Rightarrow> (Inl err, s1)
                     | Inr genreRaw \<Rightarrow>
                         if homeOnly \<and>
                            (toLowerCase (if genreRaw = [] then ''Top'' else genreRaw) \<noteq> ''top''
                             \<or> (truthyStr (extras ''search'') \<and> trim (the (extras ''search'')) \<noteq> []))
                         then (Inr emptyOk, s1)
                         else servePage e localeCompare
                                (if ptype req = ''movie'' then Movie else Series)
                                (toLowerCase lsidRaw) extras genreRaw s1))))"

text \<open>
  \<open>handleCatalog\<close>: the uid is read before the \<open>try\<close>, so an exception there is not
  caught (\<open>Inl\<close>); one inside the \<open>try\<close> is answered with \<open>{ metas: [] }\<close>.
  \<^verbatim>\<open>
  async function handleCatalog(req, res) {
    const uid = getUidFromReq(req); setUidCookie(res, uid);
    try { ... } catch (e) { console.error('Catalog error', e); res.json({ metas: [] }); } }\<close>
\<close>

definition handleCatalog ::
  "env \<Rightarrow> (string \<Rightarrow> string \<Rightarrow> int) \<Rightarrow> request \<Rightarrow> sys \<Rightarrow> (jserr + response) \<times> sys" where
  "handleCatalog e localeCompare req s =
     (case reqUid req of
        Inl err \<Rightarrow> (Inl err, s)
      | Inr uid \<Rightarrow>
          (case handleCatalogTry e localeCompare req s of
             (Inl err, s') \<Rightarrow> (Inr emptyOk, s')
           | (Inr r, s') \<Rightarrow> (Inr r, s')))"

section \<open>The visibility gate\<close>

text \<open>
  \<^verbatim>\<open>
  function parseCatalogId(catalogId) {
    const m = /^imdb-([^-\s]+)-(ls\d+)-(movies|series)$/i.exec(catalogId || "");
    if (!m) return null;
    const uid = decodeURIComponent(m[1]);
    const lsid = m[2].toLowerCase();
    const type = m[3] === "movies" ? "movie" : "series";
    return { uid, lsid, type }; }\<close>
  The uid has no hyphen, so the match is read from the left. \<open>gateIdMatch\<close> gives
  \<open>m[1]\<close>, the lower-cased \<open>m[2]\<close> and the type.
\<close>

definition gateIdMatch :: "string \<Rightarrow> (string \<times> string \<times> bucket) option" where
  "gateIdMatch cid =
     (if toLowerCase (take 5 cid) \<noteq> ''imdb-'' then None
      else let rest = drop 5 cid;
               uid = takeWhile (\<lambda>c. c \<noteq> CHR ''-'' \<and> \<not> isSpace c) rest;
               r1 = drop (length uid) rest in
        if uid = [] \<or> toLowerCase (take 3 r1) \<noteq> ''-ls'' then None
        else let r2 = drop 3 r1; ds = takeWhile isDigit r2; r3 = drop (length ds) r2 in
          if ds = [] \<or> (toLowerCase r3 \<noteq> ''-movies'' \<and> toLowerCase r3 \<noteq> ''-series'') then None
          else Some (uid, toLowerCase (take 2 (drop 1 r1)) @ ds,
                     if drop 1 r3 = ''movies'' then Movie else Series))"

text \<open>
  \<open>getVisibilityFor\<close> reads the user's entry from the files on disk: \<open>files uid\<close> is
  the user's array of lists, \<open>None\<close> when there is no entry for the user.
  \<^verbatim>\<open>
  const hit = user.lists.find?.(x => (x?.id || x?.lsid || x) === lsid) ?? user.lists[lsid];
  const def = { discover: true, home: true };
  if (!hit || !hit.visibility || !hit.visibility[type]) return def;
  const v = hit.visibility[type];
  return { discover: typeof v.discover === "boolean" ? v.discover : true,
           home: typeof v.home === "boolean" ? v.home : true };\<close>
\<close>

definition entryKey :: "listEntry \<Rightarrow> string" where
  "entryKey x = (if lid x \<noteq> [] then lid x else llsid x)"

definition getVisibilityFor :: "(string \<rightharpoonup> listEntry list) \<Rightarrow> string \<Rightarrow> string \<Rightarrow> bucket \<Rightarrow> vis" where
  "getVisibilityFor files uid lsid b =
     (let def = \<lparr>discover = True, home = True\<rparr> in
      case files uid of
        None \<Rightarrow> def
      | Some ls \<Rightarrow>
          (case find (\<lambda>x. entryKey x \<noteq> [] \<and> entryKey x = lsid) ls of
             None \<Rightarrow> def
           | Some hit \<Rightarrow>
               (case (case b of Movie \<Rightarrow> visMovie hit | Series \<Rightarrow> visSeries hit) of
                  None \<Rightarrow> def
                | Some v \<Rightarrow>
                    \<lparr>discover = (case vdiscover v of Some d \<Rightarrow> d | None \<Rightarrow> True),
                     home = (case vhome v of Some h \<Rightarrow> h | None \<Rightarrow> True)\<rparr>)))"

datatype gateResult = Next | Respond response

text \<open>
  The middleware of \<open>mountVisibilityGate\<close>. \<open>decodeURIComponent\<close> is the platform
  function, which throws on a malformed escape; \<open>genreGiven\<close> is
  \<open>Boolean(req.query?.genre || req.params?.genre)\<close>.
  \<^verbatim>\<open>
  if (vis.discover === false && vis.home === false) {
    res.status(404).json({ err: "CATALOG_DISABLED" }); return; }
  if (vis.discover === false && vis.home === true && isDiscover) {
    res.status(404).json({ err: "HIDDEN_FROM_DISCOVER" }); return; }
  next();\<close>
\<close>

definition visibilityGate ::
  "(string \<Rightarrow> jserr + string) \<Rightarrow> (string \<rightharpoonup> listEntry list) \<Rightarrow> string \<Rightarrow> bool \<Rightarrow> gateResult" where
  "visibilityGate decodeURIComponent files catalogId genreGiven =
     (case gateIdMatch catalogId of
        None \<Rightarrow> Next
      | Some (uidRaw, lsid, b) \<Rightarrow>
          (case decodeURIComponent uidRaw of
             Inl err \<Rightarrow> Next
           | Inr uid \<Rightarrow>
               (let v = getVisibilityFor files uid lsid b in
                if \<not> discover v \<and> \<not> home v
                  then Respond \<lparr>status = 404, body = ErrBody ''CATALOG_DISABLED''\<rparr>
                else if \<not> discover v \<and> home v \<and> genreGiven
                  then Respond \<lparr>status = 404, body = ErrBody ''HIDDEN_FROM_DISCOVER''\<rparr>
                else Next)))"

section \<open>The classifier\<close>

text \<open>
  \<^verbatim>\<open>
  async function tryCinemeta(tt, type) {
    const r = await fetch(url, ...);
    if (!r.ok) return null;
    try { const data = await r.json();
          if (data && data.meta && data.meta.id) return data.meta; } catch {}
    return null; }\<close>
  The fetch is outside the \<open>try\<close>: a rejected fetch throws.
\<close>

definition tryCinemeta :: "(bucket \<Rightarrow> string \<Rightarrow> metaResp) \<Rightarrow> string \<Rightarrow> bucket \<Rightarrow> jserr + meta option" where
  "tryCinemeta service tt b =
     (case service b tt of
        RThrow \<Rightarrow> Inl NetworkError
      | RNotOk \<Rightarrow> Inr None
      | RBadJson \<Rightarrow> Inr None
      | RBody None \<Rightarrow> Inr None
      | RBody (Some m) \<Rightarrow> if mid m \<noteq> [] then Inr (Some m) else Inr None)"

datatype titleBucket = BMovie | BSeries | BEpisode | BExclude | BUnknown

text \<open>\<open>mapTitleTypeToBucket\<close>; the first argument is the flag \<open>INCLUDE_MUSIC_VIDEO\<close>.\<close>

definition mapTitleTypeToBucket :: "bool \<Rightarrow> string option \<Rightarrow> titleBucket" where
  "mapTitleTypeToBucket includeMusicVideo ttype =
     (if \<not> truthyStr ttype then BUnknown
      else let t = toLowerCase (the ttype) in
        if strIncludes t ''music video'' then (if includeMusicVideo then BMovie else BExclude)
        else if strIncludes t ''video game'' then BExclude
        else if strIncludes t ''podcast'' then BExclude
        else if t = ''movie'' \<or> strIncludes t ''tv movie'' \<or> strIncludes t ''tv special''
                \<or> strIncludes t ''short'' \<or> strIncludes t ''tv short'' \<or> t = ''video''
                \<or> strIncludes t ''video'' then BMovie
        else if strIncludes t ''tv series'' \<or> strIncludes t ''tv miniseries''
                \<or> strIncludes t ''tv mini series'' \<or> strIncludes t ''miniseries''
                \<or> strIncludes t ''mini series'' then BSeries
        else if strIncludes t ''episode'' then BEpisode
        else BUnknown)"

text \<open>
  The world of the classifier: the metadata service, the parent series that
  \<open>resolveParentSeriesFromImdb\<close> finds for an id and the title type that
  \<open>resolveTitleTypeFromImdb\<close> finds (both catch their own exceptions and return null),
  and the music-video flag.
\<close>

record cenv =
  service :: "bucket \<Rightarrow> string \<Rightarrow> metaResp"
  parentOf :: "string \<Rightarrow> string option"
  titleTypeOf :: "string \<Rightarrow> string option"
  includeMusicVideo :: bool

datatype ctype = TMovie | TSeries | TExclude

record cresult =
  rtt :: string
  rtype :: ctype
  rmeta :: "meta option"
  rmapped :: "string option"
  reason :: string

definition cres :: "string \<Rightarrow> ctype \<Rightarrow> meta option \<Rightarrow> string option \<Rightarrow> string \<Rightarrow> cresult" where
  "cres tt t m mp rs = \<lparr>rtt = tt, rtype = t, rmeta = m, rmapped = mp, reason = rs\<rparr>"

text \<open>
  The second step of the worker, used twice:
  \<^verbatim>\<open>
  const parent = await resolveParentSeriesFromImdb(tt);
  if (parent && parent !== tt) {
    const pMeta = await tryCinemeta(parent, 'series');
    if (pMeta) return { tt, type: 'series', meta: pMeta, mapped: parent }; }\<close>
  \<open>Inr None\<close> when the step falls through.
\<close>

definition upMap :: "cenv \<Rightarrow> string \<Rightarrow> jserr + cresult option" where
  "upMap c tt =
     (case parentOf c tt of
        None \<Rightarrow> Inr None
      | Some parent \<Rightarrow>
          if parent = [] \<or> parent = tt then Inr None
          else (case tryCinemeta (service c) parent Series of
                  Inl err \<Rightarrow> Inl err
                | Inr None \<Rightarrow> Inr None
                | Inr (Some pMeta) \<Rightarrow> Inr (Some (cres tt TSeries (Some pMeta) (Some parent) []))))"

text \<open>
  The worker that \<open>classifyAndWriteSplit\<close> runs on every id.
  \<^verbatim>\<open>
  const mMeta = await tryCinemeta(tt, 'movie');
  const sMeta = await tryCinemeta(tt, 'series');
  if (mMeta && !sMeta) return { tt, type: 'movie', meta: mMeta };
  if (!mMeta && sMeta) return { tt, type: 'series', meta: sMeta };
  if (mMeta && sMeta) return { tt, type: 'series', meta: sMeta }; // prefer series when ambiguous\<close>
\<close>

definition classifyOne :: "cenv \<Rightarrow> string \<Rightarrow> jserr + cresult" where
  "classifyOne c tt =
     (case tryCinemeta (service c) tt Movie of
        Inl err \<Rightarrow> Inl err
      | Inr mMeta \<Rightarrow>
     (case tryCinemeta (service c) tt Series of
        Inl err \<Rightarrow> Inl err
      | Inr sMeta \<Rightarrow>
          if mMeta \<noteq> None \<and> sMeta = None then Inr (cres tt TMovie mMeta None [])
          else if mMeta = None \<and> sMeta \<noteq> None then Inr (cres tt TSeries sMeta None [])
          else if mMeta \<noteq> None \<and> sMeta \<noteq> None then Inr (cres tt TSeries sMeta None [])
          else
     (case upMap c tt of
        Inl err \<Rightarrow> Inl err
      | Inr (Some r) \<Rightarrow> Inr r
      | Inr None \<Rightarrow>
     (case mapTitleTypeToBucket (includeMusicVideo c) (titleTypeOf c tt) of
        BMovie \<Rightarrow>
          (case tryCinemeta (service c) tt Movie of
             Inl err \<Rightarrow> Inl err
           | Inr (Some mm) \<Rightarrow> Inr (cres tt TMovie (Some mm) None [])
           | Inr None \<Rightarrow> Inr (cres tt TExclude None None ''movie-no-cinemeta''))
      | BSeries \<Rightarrow>
          (case tryCinemeta (service c) tt Series of
             Inl err \<Rightarrow> Inl err
           | Inr (Some sm) \<Rightarrow> Inr (cres tt TSeries (Some sm) None [])
           | Inr None \<Rightarrow> Inr (cres tt TExclude None None ''series-no-cinemeta''))
      | BEpisode \<Rightarrow>
          (case upMap c tt of
             Inl err \<Rightarrow> Inl err
           | Inr (Some r) \<Rightarrow> Inr r
           | Inr None \<Rightarrow> Inr (cres tt TExclude None None ''episode-no-parent''))
      | BExclude \<Rightarrow> Inr (cres tt TExclude None None ''unknown'')
      | BUnknown \<Rightarrow> Inr (cres tt TExclude None None ''unknown'')))))"

text \<open>
  The pool stores \<open>null\<close> for a worker that throws:
  \<^verbatim>\<open>try { results[idx] = await worker(items[idx], idx); } catch { results[idx] = null; }\<close>
\<close>

definition pool :: "cenv \<Rightarrow> string list \<Rightarrow> cresult option list" where
  "pool c idList = map (\<lambda>tt. case classifyOne c tt of Inl err \<Rightarrow> None | Inr r \<Rightarrow> Some r) idList"

text \<open>
  \<open>toMeta(meta, forcedType)\<close> on the fields of the record: the type is forced (both
  callers pass one), a falsy field is dropped, and the fields it does not copy are gone.
  \<^verbatim>\<open>
  name: meta.name || meta.title || undefined,
  releaseInfo: meta.releaseInfo || undefined,
  year: meta.year || undefined,
  genres: meta.genres || undefined,
  imdbRating: meta.imdbRating || meta.imdbRatingScore || undefined,
  runtime: meta.runtime || undefined,
  videos: meta.videos || undefined\<close>
\<close>

definition keepS :: "scalar \<Rightarrow> scalar" where
  "keepS v = (if truthyS v then v else Absent)"

definition toMeta :: "meta \<Rightarrow> string \<Rightarrow> meta" where
  "toMeta m forcedType =
     blankMeta\<lparr>mid := mid m, mtype := forcedType,
       mname := (if nameStr (mname m) \<noteq> [] then mname m
                 else if truthyStr (mtitle m) then Str (the (mtitle m)) else Undefined),
       releaseInfo := keepS (releaseInfo m), year := keepS (year m),
       genres := (if truthyG (genres m) then genres m else GNone),
       imdbRating := keepS (sOr (imdbRating m) (imdbRatingScore m)),
       runtime := keepS (runtime m), videos := videos m\<rparr>"

text \<open>
  The split of the results into the two files, before and after \<open>uniqById\<close>.
  \<^verbatim>\<open>
  for (const r of results) {
    if (!r) continue;
    if (r.type === 'movie' && r.meta) movies.push(toMeta(r.meta, 'movie'));
    else if (r.type === 'series' && r.meta) { seriesArr.push(toMeta(r.meta, 'series')); ... } }\<close>
\<close>

definition movieResults :: "cresult option list \<Rightarrow> cresult list" where
  "movieResults rs = filter (\<lambda>r. rtype r = TMovie \<and> rmeta r \<noteq> None) (List.map_filter id rs)"

definition seriesResults :: "cresult option list \<Rightarrow> cresult list" where
  "seriesResults rs = filter (\<lambda>r. rtype r = TSeries \<and> rmeta r \<noteq> None) (List.map_filter id rs)"

fun uniqById :: "string list \<Rightarrow> meta list \<Rightarrow> meta list" where
  "uniqById seen [] = []"
| "uniqById seen (it # rest) =
     (if mid it = [] \<or> mid it \<in> set seen then uniqById seen rest
      else it # uniqById (mid it # seen) rest)"

definition moviesFile :: "cenv \<Rightarrow> string list \<Rightarrow> meta list" where
  "moviesFile c idList = uniqById [] (map (\<lambda>r. toMeta (the (rmeta r)) ''movie'') (movieResults (pool c idList)))"

definition seriesFile :: "cenv \<Rightarrow> string list \<Rightarrow> meta list" where
  "seriesFile c idList = uniqById [] (map (\<lambda>r. toMeta (the (rmeta r)) ''series'') (seriesResults (pool c idList)))"

definition demoCenv :: cenv where
  "demoCenv = \<lparr>service = demoService, parentOf = (\<lambda>tt. None), titleTypeOf = (\<lambda>tt. None),
               includeMusicVideo = False\<rparr>"

section \<open>Pages\<close>

text \<open>
  The typed metadata a catalog request reads in a state: what \<open>typedPage\<close> returns for
  the ids of the list, as \<open>servePage\<close> calls it.
\<close>

definition typedMetas :: "env \<Rightarrow> bucket \<Rightarrow> string \<Rightarrow> (string \<rightharpoonup> string) \<Rightarrow> sys \<Rightarrow> meta list" where
  "typedMetas e b lsid extras s =
     (case fetchImdbIds e lsid s of
        (info, s2) \<Rightarrow>
          fst (typedPage e b (ids info) 0
                 (max (catalogLimit (extras ''limit'') + catalogSkip (extras ''skip'')) 80)
                 (trim (strOr (extras ''search'') [])) s2))"

text \<open>The filtered and sorted set a page is cut from, \<open>Inl\<close> when the sort throws.\<close>

definition filteredSorted ::
  "(string \<Rightarrow> string \<Rightarrow> int) \<Rightarrow> (string \<rightharpoonup> string) \<Rightarrow> string \<Rightarrow> meta list \<Rightarrow> jserr + meta list" where
  "filteredSorted localeCompare extras genreRaw metas =
     sortStage localeCompare extras (genreFilter genreRaw metas)"

text \<open>The metas of an answer; an uncaught exception has none.\<close>

definition metasOf :: "jserr + response \<Rightarrow> meta list" where
  "metasOf r = (case r of Inr x \<Rightarrow> (case body x of Metas ms \<Rightarrow> ms | ErrBody t \<Rightarrow> []) | Inl err \<Rightarrow> [])"

text \<open>The three requests of the pagination scenario, over any other parameters.\<close>

definition withPage :: "(string \<rightharpoonup> string) \<Rightarrow> string \<Rightarrow> string \<Rightarrow> (string \<rightharpoonup> string)" where
  "withPage x sk li = x(''skip'' \<mapsto> sk, ''limit'' \<mapsto> li)"

section \<open>Example users and requests\<close>

definition homeOnlyEntry :: listEntry where
  "homeOnlyEntry = \<lparr>lid = ''ls1'', llsid = [], showIn = None,
                     visMovie = Some \<lparr>vdiscover = Some False, vhome = Some True\<rparr>,
                     visSeries = Some \<lparr>vdiscover = Some False, vhome = Some True\<rparr>\<rparr>"

definition disabledEntry :: listEntry where
  "disabledEntry = \<lparr>lid = ''ls1'', llsid = [], showIn = None,
                     visMovie = Some \<lparr>vdiscover = Some False, vhome = Some False\<rparr>,
                     visSeries = Some \<lparr>vdiscover = Some False, vhome = Some False\<rparr>\<rparr>"


definition catalogReq :: "string \<Rightarrow> string \<Rightarrow> (string \<rightharpoonup> string) \<Rightarrow> request" where
  "catalogReq tp cid extras =
     \<lparr>reqUid = Inr ''default'', ptype = tp, pcatalogId = cid, reqExtras = Inr extras,
      reqGenre = Inr []\<rparr>"

text \<open>
  A stand-in for \<open>decodeURIComponent\<close> in examples: a string without a percent sign is
  returned as it is, as the platform function does; any other string throws, as the
  platform function does for a percent sign that starts no escape, the string \<open>%\<close> among
  them.
\<close>

definition plainDecode :: "string \<Rightarrow> jserr + string" where
  "plainDecode u = (if CHR ''%'' \<in> set u then Inl URIError else Inr u)"

text \<open>
  A service whose series records carry a numeric \<open>releaseInfo\<close> and no \<open>year\<close>: sorting
  them by year throws.
\<close>

definition numericYearEnv :: env where
  "numericYearEnv =
     demoEnv\<lparr>cinemeta := (\<lambda>b tt. case demoService b tt of
                                    RBody (Some m) \<Rightarrow> RBody (Some (m\<lparr>releaseInfo := NumV 2011\<rparr>))
                                  | r \<Rightarrow> r)\<rparr>"



section \<open>Reading the uid of a request\<close>

text \<open>
  \<^verbatim>\<open>
  function parseCookies(req) {
    const header = req.headers['cookie'] || '';
    const out = {};
    header.split(';').forEach(p => {
      const idx = p.indexOf('=');
      if (idx > -1) out[p.slice(0,idx).trim()] = decodeURIComponent(p.slice(idx+1)); });
    return out; }
  function getUidFromReq(req) {
    const q = req.query && (req.query.uid || req.query.user || req.query.u);
    if (q) return String(q);
    const c = parseCookies(req);
    return c.uid || 'default'; }\<close>
  \<open>decodeURIComponent\<close> is the platform function, which throws on a malformed escape;
  \<open>q\<close> is the uid of the query string, if there is one.
\<close>

fun cookieFold ::
  "(string \<Rightarrow> jserr + string) \<Rightarrow> string list \<Rightarrow> (string \<rightharpoonup> string) \<Rightarrow> jserr + (string \<rightharpoonup> string)" where
  "cookieFold decodeURIComponent [] out = Inr out"
| "cookieFold decodeURIComponent (p # ps) out =
     (if CHR ''='' \<in> set p
      then (case decodeURIComponent (drop (Suc (length (takeWhile (\<lambda>c. c \<noteq> CHR ''='') p))) p) of
              Inl err \<Rightarrow> Inl err
            | Inr v \<Rightarrow>
                cookieFold decodeURIComponent ps (out(trim (takeWhile (\<lambda>c. c \<noteq> CHR ''='') p) \<mapsto> v)))
      else cookieFold decodeURIComponent ps out)"

definition parseCookies :: "(string \<Rightarrow> jserr + string) \<Rightarrow> string \<Rightarrow> jserr + (string \<rightharpoonup> string)" where
  "parseCookies decodeURIComponent header =
     cookieFold decodeURIComponent (splitOn (CHR '';'') header) Map.empty"

definition getUidFromReq ::
  "(string \<Rightarrow> jserr + string) \<Rightarrow> string option \<Rightarrow> string \<Rightarrow> jserr + string" where
  "getUidFromReq decodeURIComponent q header =
     (if truthyStr q then Inr (the q)
      else (case parseCookies decodeURIComponent header of
              Inl err \<Rightarrow> Inl err
            | Inr c \<Rightarrow> Inr (strOr (c ''uid'') ''default'')))"

text \<open>A catalog request that comes with the cookie \<open>uid=%\<close>.\<close>

definition badCookieReq :: request where
  "badCookieReq =
     (catalogReq ''movie'' ''imdb-default-ls1-movies'' Map.empty)
       \<lparr>reqUid := getUidFromReq plainDecode None ''uid=%''\<rparr>"

text \<open>The series page of the list \<open>ls1\<close> of the example world.\<close>

definition seriesPage :: request where
  "seriesPage = catalogReq ''series'' ''imdb-default-ls1-series'' Map.empty"

section \<open>The classifier of the prefetch library\<close>

text \<open>
  \<open>titleTypeFromLabel\<close> and \<open>bucketFor\<close> of \<open>imdbTypeClassifier.mjs\<close>. The flag of
  \<open>bucketFor\<close> is the environment variable \<open>INCLUDE_MUSIC_VIDEO\<close> read as \<open>true\<close> in any
  letter case.
\<close>

definition LABEL_TO_TITLETYPE :: "(string \<times> string) list" where
  "LABEL_TO_TITLETYPE =
    [(''movie'', ''movie''), (''feature film'', ''movie''), (''tv movie'', ''tvmovie''),
     (''short'', ''short''), (''tv short'', ''tvshort''), (''video'', ''video''),
     (''tv special'', ''tvspecial''), (''music video'', ''musicvideo''),
     (''tv series'', ''tvseries''), (''tv mini series'', ''tvminiseries''),
     (''mini-series'', ''tvminiseries''), (''miniseries'', ''tvminiseries''),
     (''tv episode'', ''tvepisode''), (''video game'', ''videogame''),
     (''podcast series'', ''podcastseries''), (''podcast episode'', ''podcastepisode'')]"

definition titleTypeFromLabel :: "string option \<Rightarrow> string option" where
  "titleTypeFromLabel label =
     (if \<not> truthyStr label then None
      else map_of LABEL_TO_TITLETYPE (toLowerCase (trim (the label))))"

definition MOVIE_TYPES :: "string list" where
  "MOVIE_TYPES = [''movie'', ''tvmovie'', ''short'', ''tvshort'', ''video'', ''tvspecial'', ''musicvideo'']"

definition SERIES_TYPES :: "string list" where
  "SERIES_TYPES = [''tvseries'', ''tvminiseries'']"

definition bucketFor :: "bool \<Rightarrow> string \<Rightarrow> bucket option" where
  "bucketFor includeMusic titleTypeRaw =
     (if titleTypeRaw = [] then None
      else let tt = toLowerCase (trim titleTypeRaw) in
        if tt = ''musicvideo'' \<and> \<not> includeMusic then None
        else if tt \<in> set MOVIE_TYPES then Some Movie
        else if tt \<in> set SERIES_TYPES then Some Series
        else None)"

text \<open>
  \<^verbatim>\<open>
  function looksLikeSeries(meta) {
    if (!meta) return false;
    if (String(meta?.type || '').toLowerCase() === 'series') return true;
    if (Array.isArray(meta?.videos) && meta.videos.some(v =>
          String(v?.type || '').toLowerCase() === 'series' || String(v?.season || ''))) return true;
    if (Number(meta?.totalSeasons || 0) > 0) return true;
    return false; }\<close>
\<close>

definition looksLikeSeries :: "meta option \<Rightarrow> bool" where
  "looksLikeSeries mo =
     (case mo of
        None \<Rightarrow> False
      | Some m \<Rightarrow>
          toLowerCase (mtype m) = ''series''
          \<or> (case videos m of
                None \<Rightarrow> False
              | Some vs \<Rightarrow> list_ex (\<lambda>v. toLowerCase (vtype v) = ''series'' \<or> truthyS (vseason v)) vs)
          \<or> numLess (Num 0) (jsNumber (sOr (totalSeasons m) (NumV 0))))"

text \<open>
  The two hints a caller may pass in \<open>raw\<close>, and the bucket they map to:
  \<^verbatim>\<open>bucketFor(String(titleTypeFromLabel(raw.titleLabel) || raw.titleType || '').toLowerCase())\<close>
\<close>

record rawHint =
  titleLabel :: "string option"
  titleType :: "string option"

definition noHint :: rawHint where
  "noHint = \<lparr>titleLabel = None, titleType = None\<rparr>"

definition hintBucket :: "cenv \<Rightarrow> rawHint \<Rightarrow> bucket option" where
  "hintBucket c raw =
     bucketFor (includeMusicVideo c)
       (toLowerCase (strOr (titleTypeFromLabel (titleLabel raw)) (strOr (titleType raw) [])))"

text \<open>
  A response is \<open>ok\<close> when the fetch was fulfilled with a success status; \<open>safeMeta\<close>
  gives its \<open>meta\<close>, null when the body does not parse or has none.
\<close>

definition respOk :: "metaResp \<Rightarrow> bool" where
  "respOk r = (case r of RThrow \<Rightarrow> False | RNotOk \<Rightarrow> False | RBadJson \<Rightarrow> True | RBody mo \<Rightarrow> True)"

definition safeMeta :: "metaResp \<Rightarrow> meta option" where
  "safeMeta r = (case r of RBody mo \<Rightarrow> mo | RThrow \<Rightarrow> None | RNotOk \<Rightarrow> None | RBadJson \<Rightarrow> None)"

text \<open>
  \<^verbatim>\<open>
  export async function classifyAndFetch(tt, raw = {}) {
    const [m, s] = await Promise.allSettled([fetch(.../meta/movie/${tt}.json), fetch(.../meta/series/${tt}.json)]);
    const okM = (m.status === 'fulfilled' && m.value.ok);
    const okS = (s.status === 'fulfilled' && s.value.ok);
    if (okM && !okS) return { type: 'movie',  meta: await safeMeta(m.value) };
    if (okS && !okM) return { type: 'series', meta: await safeMeta(s.value) };
    if (okS && okM) {
      const mapped = bucketFor(...);
      if (mapped === 'series') return { type: 'series', meta: await safeMeta(s.value) };
      if (mapped === 'movie')  return { type: 'movie',  meta: await safeMeta(m.value) };
      ... const mm = jm && jm.meta ? jm.meta : null; const sm = js && js.meta ? js.meta : null;
      if (looksLikeSeries(sm)) return { type: 'series', meta: sm };
      if (!looksLikeSeries(sm) && (String(mm?.type || '').toLowerCase() === 'movie'))
        return { type: 'movie', meta: mm };
      return { type: 'series', meta: sm || await safeMeta(s.value) } || { ... }; }
    return { type: null, meta: null }; }\<close>
  The result is the type, \<open>None\<close> for null, and the metadata.
\<close>

definition classifyAndFetch :: "cenv \<Rightarrow> string \<Rightarrow> rawHint \<Rightarrow> bucket option \<times> meta option" where
  "classifyAndFetch c tt raw =
     (let m = service c Movie tt; s = service c Series tt;
          okM = respOk m; okS = respOk s
      in if okM \<and> \<not> okS then (Some Movie, safeMeta m)
         else if okS \<and> \<not> okM then (Some Series, safeMeta s)
         else if okS \<and> okM then
           (let mapped = hintBucket c raw; mm = safeMeta m; sm = safeMeta s
            in if mapped = Some Series then (Some Series, sm)
               else if mapped = Some Movie then (Some Movie, mm)
               else if looksLikeSeries sm then (Some Series, sm)
               else if toLowerCase (case mm of None \<Rightarrow> [] | Some x \<Rightarrow> mtype x) = ''movie''
                 then (Some Movie, mm)
               else (Some Series, sm))
         else (None, None))"

text \<open>
  The loop of \<open>warmList\<close> over the ids, with the items as the two cache files hold them.
  \<^verbatim>\<open>
  for (const tt of ids) {
    const r = await classifyAndFetch(tt, {});
    if (!r || !r.type || !r.meta) continue;
    const meta = r.meta;
    const t = (r.type === 'series') ? 'series' : 'movie';
    const item = { id: meta.id || tt, type: t, name: meta.name || meta.title || meta.id || tt,
      imdbRating: Number(meta.imdbRating || meta.rating || 0) || undefined,
      runtime: meta.runtime, genres: meta.genres, year: meta.year, ..., addedAt: idx++ };
    if (t === 'movie') movies.push(item); else series.push(item); }\<close>
  A rating that is zero, NaN or infinite is not in the file.
\<close>

definition warmItem :: "meta \<Rightarrow> string \<Rightarrow> bucket \<Rightarrow> nat \<Rightarrow> meta" where
  "warmItem m tt t idx =
     blankMeta\<lparr>mid := (if mid m \<noteq> [] then mid m else tt),
       mtype := typeStr t,
       mname := Str (if nameStr (mname m) \<noteq> [] then nameStr (mname m)
                     else if truthyStr (mtitle m) then the (mtitle m)
                     else if mid m \<noteq> [] then mid m else tt),
       imdbRating := (case valOf ''rating'' m of
                        Num r \<Rightarrow> if r = 0 then Absent else NumV r
                      | NaN \<Rightarrow> Absent | PosInf \<Rightarrow> Absent | NegInf \<Rightarrow> Absent),
       runtime := runtime m, genres := genres m, year := year m,
       addedAt := NumV (of_nat idx)\<rparr>"

fun warmLoop :: "cenv \<Rightarrow> string list \<Rightarrow> nat \<Rightarrow> meta list \<times> meta list" where
  "warmLoop c [] idx = ([], [])"
| "warmLoop c (tt # tts) idx =
     (case classifyAndFetch c tt noHint of
        (Some t, Some m) \<Rightarrow>
          (case warmLoop c tts (Suc idx) of
             (movies, series) \<Rightarrow>
               (case t of Movie \<Rightarrow> (warmItem m tt t idx # movies, series)
                        | Series \<Rightarrow> (movies, warmItem m tt t idx # series)))
      | (Some t, None) \<Rightarrow> warmLoop c tts idx
      | (None, mo) \<Rightarrow> warmLoop c tts idx)"

definition warmMovies :: "cenv \<Rightarrow> string list \<Rightarrow> meta list" where
  "warmMovies c idList = fst (warmLoop c idList 1)"

definition warmSeries :: "cenv \<Rightarrow> string list \<Rightarrow> meta list" where
  "warmSeries c idList = snd (warmLoop c idList 1)"

text \<open>
  A service that answers both requests for \<open>tt3\<close>, the series request with a record that
  has a name and no type.
\<close>

definition untypedSeries :: "string \<Rightarrow> meta" where
  "untypedSeries tt = blankMeta\<lparr>mid := tt, mname := Str (''Show '' @ tt)\<rparr>"

definition untypedCenv :: cenv where
  "untypedCenv =
     demoCenv\<lparr>service := (\<lambda>b tt. if b = Series \<and> tt = ''tt3'' then RBody (Some (untypedSeries tt))
                                   else demoService b tt)\<rparr>"

section \<open>Properties of the page limit\<close>

lemma parseInt10_minus5: "parseInt10 ''-5'' = Some (- 5)"
  by (simp add: parseInt10_def trimStart_def isSpace_def isDigit_def digitsVal_def digitVal_def)

lemma catalogLimit_range: "1 \<le> catalogLimit raw \<and> catalogLimit raw \<le> 80"
  by (simp add: catalogLimit_def)

text \<open>
  C10, as the source computes it: the effective limit always lies between 1 and 80; a
  missing, empty, non-numeric or zero limit gives the default 50; a limit above 80 gives
  80; a negative limit is not replaced by the default but raised to 1 by \<open>Math.max(1, _)\<close>;
  every other value is kept.
\<close>

theorem catalogLimit_effective:
  "1 \<le> catalogLimit raw \<and> catalogLimit raw \<le> 80 \<and>
   catalogLimit raw =
     (case parseInt10 (strOr raw ''50'') of
        None \<Rightarrow> 50
      | Some k \<Rightarrow> if k = 0 then 50 else if k < 0 then 1 else if 80 < k then 80 else k)"
  by (simp add: catalogLimit_def intOr_def split: option.split)

theorem catalogLimit_effective_witness:
  "catalogLimit (Some ''-5'') = 1 \<and> 1 \<le> catalogLimit (Some ''-5'')
   \<and> catalogLimit (Some ''-5'') \<le> 80"
  using catalogLimit_effective [of "Some ''-5''"]
  by (simp add: strOr_def parseInt10_minus5)

text \<open>
  C10 as stated fails: the requested limit \<open>-5\<close> is a negative value, and the effective
  limit is 1, not the default 50.
\<close>

theorem catalogLimit_negative_counterexample:
  "parseInt10 ''-5'' = Some (- 5) \<and> catalogLimit (Some ''-5'') = 1
   \<and> catalogLimit (Some ''-5'') \<noteq> 50"
  by (simp add: catalogLimit_def intOr_def strOr_def parseInt10_minus5)

text \<open>
  C6 fails on the source for an array that holds the compound label
  \<open>Sci-Fi & Fantasy\<close>: normalisation turns the hyphen into a space before the alias
  table is read, the key \<open>sci-fi & fantasy\<close> is never found, and the label comes out
  title-cased and unexpanded. A request for \<open>Fantasy\<close> then misses the item. The same
  label as one string, and \<open>Action & Adventure\<close> in an array, expand as intended.
\<close>

theorem explode_compound_in_array:
  "explodeToCanonicalSet (GArr [''Sci-Fi & Fantasy'']) = [''Sci Fi & Fantasy'']
   \<and> \<not> genreMatches ''Fantasy'' (blankMeta\<lparr>genres := GArr [''Sci-Fi & Fantasy'']\<rparr>)
   \<and> explodeToCanonicalSet (GStr ''Sci-Fi & Fantasy'') = [''Sci-Fi'', ''Fantasy'']
   \<and> genreMatches ''Fantasy'' (blankMeta\<lparr>genres := GStr ''Sci-Fi & Fantasy''\<rparr>)
   \<and> explodeToCanonicalSet (GArr [''Action & Adventure'']) = [''Action'', ''Adventure'']"
  by code_simp

section \<open>Facts about the sort\<close>

lemma mset_insertBy: "mset (insertBy c x ys) = add_mset x (mset ys)"
  by (induction ys) auto
lemma mset_jsSort: "mset (jsSort c xs) = mset xs"
  by (induction xs) (auto simp: jsSort_def mset_insertBy)







section \<open>Sorting by rating\<close>


lemma numKey_NaN: "(numKey a = []) = (a = NaN)"
  by (cases a) (simp_all add: numKey_def)


















section \<open>Sorting by name\<close>















lemma sorted_wrt_jsSlice: "sorted_wrt R xs \<Longrightarrow> sorted_wrt R (jsSlice xs a b)"
  by (simp add: jsSlice_def Let_def sorted_wrt_take sorted_wrt_drop)







section \<open>The metadata resolver\<close>



lemma getCache_None_other: "k \<noteq> key \<Longrightarrow> snd (getCache key t mem) k = mem k"
  by (simp add: getCache_def split: option.splits prod.splits)


lemma getMeta_miss:
  assumes "fst (getCache (b, tt) (now s) (metaCache s)) = None"
  shows "getMeta e b tt s =
           (case getMetaTry e b tt (s\<lparr>metaCache := snd (getCache (b, tt) (now s) (metaCache s))\<rparr>) of
              (Inl err, s') \<Rightarrow> (None, s') | (Inr r, s') \<Rightarrow> (r, s'))"
  using assms by (cases "getCache (b, tt) (now s) (metaCache s)") (simp add: getMeta_def)

lemma getMetaTry_calls: "calls (snd (getMetaTry e b tt s)) = calls s @ [MetaCall b tt]"
  by (simp add: getMetaTry_def externalCall_def Let_def split: metaResp.splits option.splits)








section \<open>Series presence suppresses the movie bucket\<close>

lemma typed_movie_none:
  assumes "getMeta e Series tt s = (Some sm, s1)"
  shows "getTypedMetaDeterministic e Movie tt s = (None, s1)"
    and "fst (typedSlot e Movie search tt s) = None"
  using assms by (simp_all add: getTypedMetaDeterministic_def typedSlot_def)

lemma upMap_rtt: "upMap c tt = Inr (Some r) \<Longrightarrow> rtt r = tt"
  by (auto simp: upMap_def cres_def split: option.splits if_splits sum.splits)

lemma classifyOne_rtt: "classifyOne c tt = Inr r \<Longrightarrow> rtt r = tt"
  unfolding classifyOne_def
  by (auto simp: cres_def dest: upMap_rtt split: sum.splits option.splits if_splits titleBucket.splits)

lemma classifyOne_when_series:
  assumes "tryCinemeta (service c) tt Series = Inr (Some sm)"
  shows "classifyOne c tt =
           (case tryCinemeta (service c) tt Movie of
              Inl err \<Rightarrow> Inl err
            | Inr mm \<Rightarrow> Inr (cres tt TSeries (Some sm) None []))"
proof (cases "tryCinemeta (service c) tt Movie")
  case (Inl err)
  then show ?thesis by (simp add: classifyOne_def)
next
  case (Inr mm)
  then show ?thesis using assms by (cases mm) (simp_all add: classifyOne_def)
qed

lemma classifyOne_series_present:
  assumes "tryCinemeta (service c) tt Series = Inr (Some sm)"
  shows "classifyOne c tt = Inr r \<Longrightarrow> rtype r = TSeries \<and> rmeta r = Some sm"
    and "tryCinemeta (service c) tt Movie = Inr mm \<Longrightarrow> classifyOne c tt = Inr (cres tt TSeries (Some sm) None [])"
  using classifyOne_when_series[OF assms]
  by (auto simp: cres_def split: sum.splits)

lemma in_set_map_filter_id: "(x \<in> set (List.map_filter id xs)) = (Some x \<in> set xs)"
  by (induction xs) (auto split: option.splits)

lemma pool_member:
  assumes "r \<in> set (movieResults (pool c idList))"
  shows "rtype r = TMovie \<and> (\<exists>tt\<in>set idList. classifyOne c tt = Inr r)"
proof -
  have "rtype r = TMovie" and "Some r \<in> set (pool c idList)"
    using assms by (auto simp: movieResults_def in_set_map_filter_id)
  then show ?thesis
    by (auto simp: pool_def split: sum.splits)
qed

lemma movieResults_exclude_series:
  assumes "tryCinemeta (service c) tt Series = Inr (Some sm)"
  shows "tt \<notin> set (map rtt (movieResults (pool c idList)))"
proof
  assume "tt \<in> set (map rtt (movieResults (pool c idList)))"
  then obtain r where r: "r \<in> set (movieResults (pool c idList))" and t: "rtt r = tt" by auto
  from pool_member[OF r] obtain tt' where m: "rtype r = TMovie" and c: "classifyOne c tt' = Inr r" by blast
  have "tt' = tt" using classifyOne_rtt[OF c] t by simp
  then have "rtype r = TSeries" using classifyOne_series_present(1)[OF assms] c by simp
  then show False using m by simp
qed

lemma hintBucket_noHint: "hintBucket c noHint = None"
  by (simp add: hintBucket_def noHint_def titleTypeFromLabel_def truthyStr_def strOr_def
        toLowerCase_def bucketFor_def)

lemma classifyAndFetch_series_resolves:
  assumes "service c Series tt = RBody (Some sm)"
  shows "fst (classifyAndFetch c tt raw) =
           Some (if respOk (service c Movie tt)
                    \<and> (hintBucket c raw = Some Movie
                        \<or> (hintBucket c raw = None \<and> \<not> looksLikeSeries (Some sm)
                            \<and> toLowerCase (case safeMeta (service c Movie tt) of
                                             None \<Rightarrow> [] | Some x \<Rightarrow> mtype x) = ''movie''))
                 then Movie else Series)"
proof (cases "hintBucket c raw")
  case None
  then show ?thesis using assms by (simp add: classifyAndFetch_def Let_def respOk_def safeMeta_def)
next
  case (Some h)
  then show ?thesis using assms
    by (cases h) (simp_all add: classifyAndFetch_def Let_def respOk_def safeMeta_def)
qed

lemma classifyAndFetch_movie:
  assumes "service c Series tt = RBody (Some sm)" "service c Movie tt = RBody (Some mm)"
      and "\<not> looksLikeSeries (Some sm)" "toLowerCase (mtype mm) = ''movie''"
  shows "classifyAndFetch c tt noHint = (Some Movie, Some mm)"
  using assms
  by (simp add: classifyAndFetch_def Let_def respOk_def safeMeta_def hintBucket_noHint)

lemma warmLoop_movie:
  assumes "classifyAndFetch c tt noHint = (Some Movie, Some mm)" "tt \<in> set idList"
  shows "\<exists>k. warmItem mm tt Movie k \<in> set (fst (warmLoop c idList idx))"
  using assms(2)
proof (induction idList arbitrary: idx)
  case Nil
  then show ?case by simp
next
  case (Cons x xs)
  show ?case
  proof (cases "x = tt")
    case True
    then show ?thesis using assms(1)
      by (cases "warmLoop c xs (Suc idx)") auto
  next
    case False
    then have "tt \<in> set xs" using Cons.prems by simp
    from Cons.IH[OF this] have ih: "\<exists>k. warmItem mm tt Movie k \<in> set (fst (warmLoop c xs j))" for j .
    obtain t mo where cf: "classifyAndFetch c x noHint = (t, mo)" by (cases "classifyAndFetch c x noHint")
    show ?thesis
    proof (cases t)
      case None
      then show ?thesis using cf ih[of idx] by simp
    next
      case (Some b)
      show ?thesis
      proof (cases mo)
        case None
        then show ?thesis using cf Some ih[of idx] by simp
      next
        case m: (Some m)
        obtain k where "warmItem mm tt Movie k \<in> set (fst (warmLoop c xs (Suc idx)))"
          using ih[of "Suc idx"] by blast
        then show ?thesis using cf Some m
          by (cases "warmLoop c xs (Suc idx)"; cases b) auto
      qed
    qed
  qed
qed

lemma warmMovies_holds:
  assumes "service c Series tt = RBody (Some sm)" "service c Movie tt = RBody (Some mm)"
      and "\<not> looksLikeSeries (Some sm)" "toLowerCase (mtype mm) = ''movie''" "tt \<in> set idList"
  shows "\<exists>k. warmItem mm tt Movie k \<in> set (warmMovies c idList)"
  unfolding warmMovies_def
  by (rule warmLoop_movie[OF classifyAndFetch_movie[OF assms(1-4)] assms(5)])

text \<open>
  C1, as the three classifiers have it. When \<open>getMeta('series', id)\<close> returns a record,
  \<open>getTypedMetaDeterministic\<close> returns null for the movie bucket and the id fills no slot
  of a movie page, whatever the movie lookup would give. In the worker of
  \<open>classifyAndWriteSplit\<close>, an id whose series metadata resolves is never given the type
  movie: its result, when the worker returns one, is of type series with the series
  metadata, also when the movie metadata resolves as well, and the id is not among the
  results that go to the movie file. \<open>classifyAndFetch\<close> decides otherwise: for an id
  whose series request returns a record it gives the type movie exactly when the movie
  request succeeds too and either the hint of the caller maps to movie, or there is no
  decisive hint, the series record does not look like a series and the type of the
  movie record is \<open>movie\<close>; in every other case it gives the type series. \<open>warmList\<close>
  passes no hint: when the series record does not look like a series and the type of
  the movie record is \<open>movie\<close>, an item made from the movie record of the id is in its
  movie file.
\<close>

theorem series_suppresses_movie:
  "(\<forall>sm s1. getMeta e Series tt s = (Some sm, s1) \<longrightarrow>
       getTypedMetaDeterministic e Movie tt s = (None, s1)
       \<and> fst (typedSlot e Movie search tt s) = None)
   \<and> (\<forall>sm. tryCinemeta (service c) tt Series = Inr (Some sm) \<longrightarrow>
         (\<forall>r. classifyOne c tt = Inr r \<longrightarrow> rtype r = TSeries \<and> rmeta r = Some sm)
       \<and> (\<forall>mm. tryCinemeta (service c) tt Movie = Inr (Some mm) \<longrightarrow>
              classifyOne c tt = Inr (cres tt TSeries (Some sm) None []))
       \<and> tt \<notin> set (map rtt (movieResults (pool c idList))))
   \<and> (\<forall>sm. service c Series tt = RBody (Some sm) \<longrightarrow>
         fst (classifyAndFetch c tt raw) =
           Some (if respOk (service c Movie tt)
                    \<and> (hintBucket c raw = Some Movie
                        \<or> (hintBucket c raw = None \<and> \<not> looksLikeSeries (Some sm)
                            \<and> toLowerCase (case safeMeta (service c Movie tt) of
                                             None \<Rightarrow> [] | Some x \<Rightarrow> mtype x) = ''movie''))
                 then Movie else Series)
       \<and> (\<forall>mm. service c Movie tt = RBody (Some mm) \<and> \<not> looksLikeSeries (Some sm)
                 \<and> toLowerCase (mtype mm) = ''movie'' \<and> tt \<in> set idList
              \<longrightarrow> (\<exists>k. warmItem mm tt Movie k \<in> set (warmMovies c idList))))"
proof (intro conjI allI impI)
  fix sm s1 assume g: "getMeta e Series tt s = (Some sm, s1)"
  show "getTypedMetaDeterministic e Movie tt s = (None, s1)" by (rule typed_movie_none(1)[OF g])
  show "fst (typedSlot e Movie search tt s) = None" by (rule typed_movie_none(2)[OF g])
next
  fix sm r assume "tryCinemeta (service c) tt Series = Inr (Some sm)" "classifyOne c tt = Inr r"
  then show "rtype r = TSeries" "rmeta r = Some sm"
    using classifyOne_series_present(1) by blast+
next
  fix sm mm assume "tryCinemeta (service c) tt Series = Inr (Some sm)"
    "tryCinemeta (service c) tt Movie = Inr (Some mm)"
  then show "classifyOne c tt = Inr (cres tt TSeries (Some sm) None [])"
    using classifyOne_series_present(2) by blast
next
  fix sm assume "tryCinemeta (service c) tt Series = Inr (Some sm)"
  then show "tt \<notin> set (map rtt (movieResults (pool c idList)))"
    by (rule movieResults_exclude_series)
next
  fix sm assume "service c Series tt = RBody (Some sm)"
  then show "fst (classifyAndFetch c tt raw) =
           Some (if respOk (service c Movie tt)
                    \<and> (hintBucket c raw = Some Movie
                        \<or> (hintBucket c raw = None \<and> \<not> looksLikeSeries (Some sm)
                            \<and> toLowerCase (case safeMeta (service c Movie tt) of
                                             None \<Rightarrow> [] | Some x \<Rightarrow> mtype x) = ''movie''))
                 then Movie else Series)"
    by (rule classifyAndFetch_series_resolves)
next
  fix sm mm
  assume "service c Series tt = RBody (Some sm)"
     and "service c Movie tt = RBody (Some mm) \<and> \<not> looksLikeSeries (Some sm)
                 \<and> toLowerCase (mtype mm) = ''movie'' \<and> tt \<in> set idList"
  then show "\<exists>k. warmItem mm tt Movie k \<in> set (warmMovies c idList)"
    using warmMovies_holds by blast
qed

lemma demo_series_tt3:
  "getMeta demoEnv Series ''tt3'' emptySys =
   (Some (seriesOf ''tt3''),
    emptySys\<lparr>calls := [MetaCall Series ''tt3''], now := 1005,
      metaCache := [(Series, ''tt3'') \<mapsto> (seriesOf ''tt3'', 1801005)]\<rparr>)"
  by (simp add: getMeta_def getCache_def emptySys_def getMetaTry_def demoEnv_def demoService_def
        externalCall_def setCache_def)

theorem series_suppresses_movie_witness:
  "fst (getMeta demoEnv Series ''tt3'' emptySys) = Some (seriesOf ''tt3'')
   \<and> cinemeta demoEnv Movie ''tt3'' = RBody (Some (movieOf ''tt3''))
   \<and> fst (getTypedMetaDeterministic demoEnv Movie ''tt3'' emptySys) = None
   \<and> tryCinemeta (service demoCenv) ''tt3'' Series = Inr (Some (seriesOf ''tt3''))
   \<and> tryCinemeta (service demoCenv) ''tt3'' Movie = Inr (Some (movieOf ''tt3''))
   \<and> classifyOne demoCenv ''tt3'' = Inr (cres ''tt3'' TSeries (Some (seriesOf ''tt3'')) None [])
   \<and> ''tt3'' \<notin> set (map rtt (movieResults (pool demoCenv [''tt1'', ''tt2'', ''tt3''])))
   \<and> map mid (moviesFile demoCenv [''tt1'', ''tt2'', ''tt3'']) = [''tt1'']
   \<and> map mid (seriesFile demoCenv [''tt1'', ''tt2'', ''tt3'']) = [''tt2'', ''tt3'']
   \<and> service demoCenv Series ''tt3'' = RBody (Some (seriesOf ''tt3''))
   \<and> fst (classifyAndFetch demoCenv ''tt3'' noHint) = Some Series
   \<and> service untypedCenv Series ''tt3'' = RBody (Some (untypedSeries ''tt3''))
   \<and> service untypedCenv Movie ''tt3'' = RBody (Some (movieOf ''tt3''))
   \<and> fst (classifyAndFetch untypedCenv ''tt3'' noHint) = Some Movie
   \<and> (\<exists>k. warmItem (movieOf ''tt3'') ''tt3'' Movie k
              \<in> set (warmMovies untypedCenv [''tt1'', ''tt2'', ''tt3'']))"
proof -
  have g: "getMeta demoEnv Series ''tt3'' emptySys =
            (Some (seriesOf ''tt3''), snd (getMeta demoEnv Series ''tt3'' emptySys))"
    by (simp add: demo_series_tt3)
  have s: "tryCinemeta (service demoCenv) ''tt3'' Series = Inr (Some (seriesOf ''tt3''))"
    by (simp add: tryCinemeta_def demoCenv_def demoService_def seriesOf_def)
  have m: "tryCinemeta (service demoCenv) ''tt3'' Movie = Inr (Some (movieOf ''tt3''))"
    by (simp add: tryCinemeta_def demoCenv_def demoService_def movieOf_def)
  have cm: "cinemeta demoEnv Movie ''tt3'' = RBody (Some (movieOf ''tt3''))"
    by (simp add: demoEnv_def demoService_def)
  note t = series_suppresses_movie[of demoEnv "''tt3''" emptySys "[]" demoCenv
             "[''tt1'', ''tt2'', ''tt3'']" noHint]
  have 1: "fst (getTypedMetaDeterministic demoEnv Movie ''tt3'' emptySys) = None"
    using t g by (metis fst_conv)
  have 2: "classifyOne demoCenv ''tt3'' = Inr (cres ''tt3'' TSeries (Some (seriesOf ''tt3'')) None [])"
    using t s m by blast
  have 3: "''tt3'' \<notin> set (map rtt (movieResults (pool demoCenv [''tt1'', ''tt2'', ''tt3''])))"
    using t s by blast
  have 4: "map mid (moviesFile demoCenv [''tt1'', ''tt2'', ''tt3'']) = [''tt1'']" by code_simp
  have 5: "map mid (seriesFile demoCenv [''tt1'', ''tt2'', ''tt3'']) = [''tt2'', ''tt3'']" by code_simp
  have ds: "service demoCenv Series ''tt3'' = RBody (Some (seriesOf ''tt3''))"
    by (simp add: demoCenv_def demoService_def)
  let ?D = "respOk (service demoCenv Movie ''tt3'')
            \<and> (hintBucket demoCenv noHint = Some Movie
                \<or> (hintBucket demoCenv noHint = None \<and> \<not> looksLikeSeries (Some (seriesOf ''tt3''))
                    \<and> toLowerCase (case safeMeta (service demoCenv Movie ''tt3'') of
                                     None \<Rightarrow> [] | Some x \<Rightarrow> mtype x) = ''movie''))"
  have "fst (classifyAndFetch demoCenv ''tt3'' noHint) = Some (if ?D then Movie else Series)"
    using t ds by blast
  moreover have "(if ?D then Movie else Series) = Series" by code_simp
  ultimately have 6: "fst (classifyAndFetch demoCenv ''tt3'' noHint) = Some Series" by simp
  have us: "service untypedCenv Series ''tt3'' = RBody (Some (untypedSeries ''tt3''))"
    by (simp add: untypedCenv_def)
  have um: "service untypedCenv Movie ''tt3'' = RBody (Some (movieOf ''tt3''))"
    by (simp add: untypedCenv_def demoService_def)
  have nl: "\<not> looksLikeSeries (Some (untypedSeries ''tt3''))" by code_simp
  have mt: "toLowerCase (mtype (movieOf ''tt3'')) = ''movie''" by code_simp
  note u = series_suppresses_movie[of _ "''tt3''" _ _ untypedCenv "[''tt1'', ''tt2'', ''tt3'']" noHint]
  let ?U = "respOk (service untypedCenv Movie ''tt3'')
            \<and> (hintBucket untypedCenv noHint = Some Movie
                \<or> (hintBucket untypedCenv noHint = None \<and> \<not> looksLikeSeries (Some (untypedSeries ''tt3''))
                    \<and> toLowerCase (case safeMeta (service untypedCenv Movie ''tt3'') of
                                     None \<Rightarrow> [] | Some x \<Rightarrow> mtype x) = ''movie''))"
  have "fst (classifyAndFetch untypedCenv ''tt3'' noHint) = Some (if ?U then Movie else Series)"
    using u us by blast
  moreover have "(if ?U then Movie else Series) = Movie" by code_simp
  ultimately have 7: "fst (classifyAndFetch untypedCenv ''tt3'' noHint) = Some Movie" by simp
  have mem: "''tt3'' \<in> set [''tt1'', ''tt2'', ''tt3'']" by simp
  have 8: "\<exists>k. warmItem (movieOf ''tt3'') ''tt3'' Movie k
              \<in> set (warmMovies untypedCenv [''tt1'', ''tt2'', ''tt3''])"
    using u us um nl mt mem by blast
  show ?thesis using g s m cm 1 2 3 4 5 ds 6 us um 7 8 by (simp add: demo_series_tt3)
qed

text \<open>
  C1 as stated fails for \<open>classifyAndFetch\<close>. The series request for \<open>tt3\<close> returns a
  record that has no type, the movie request returns a record of type \<open>movie\<close>, and the
  id is classified as a movie and written to the movie file of \<open>warmList\<close>; the worker
  of \<open>classifyAndWriteSplit\<close> gives the same id the type series.
\<close>

theorem series_suppresses_movie_counterexample:
  "service untypedCenv Series ''tt3'' = RBody (Some (untypedSeries ''tt3''))
   \<and> classifyAndFetch untypedCenv ''tt3'' noHint = (Some Movie, Some (movieOf ''tt3''))
   \<and> map mid (warmMovies untypedCenv [''tt1'', ''tt2'', ''tt3'']) = [''tt1'', ''tt3'']
   \<and> map mid (warmSeries untypedCenv [''tt1'', ''tt2'', ''tt3'']) = [''tt2'']
   \<and> classifyOne untypedCenv ''tt3''
        = Inr (cres ''tt3'' TSeries (Some (untypedSeries ''tt3'')) None [])"
  by code_simp

section \<open>Unfolding the catalog handler\<close>

lemma handleCatalogTry_bad_type:
  "ptype req \<noteq> ''movie'' \<Longrightarrow> ptype req \<noteq> ''series'' \<Longrightarrow>
   handleCatalogTry e lc req s = (Inr emptyOk, s)"
  by (simp add: handleCatalogTry_def)

lemma handleCatalogTry_no_match:
  "catalogIdMatch (pcatalogId req) = None \<Longrightarrow> handleCatalogTry e lc req s = (Inr emptyOk, s)"
  by (simp add: handleCatalogTry_def)

lemma handleCatalogTry_extras_throw:
  assumes "ptype req = ''movie'' \<or> ptype req = ''series''"
      and "catalogIdMatch (pcatalogId req) = Some (uid, lsidRaw)"
      and "reqExtras req = Inl err"
  shows "handleCatalogTry e lc req s = (Inl err, s)"
  using assms by (auto simp: handleCatalogTry_def)

lemma handleCatalogTry_genre_throw:
  assumes "ptype req = ''movie'' \<or> ptype req = ''series''"
      and "catalogIdMatch (pcatalogId req) = Some (uid, lsidRaw)"
      and "reqExtras req = Inr extras"
      and "(if truthyStr (extras ''genre'') then Inr (the (extras ''genre'')) else reqGenre req) = Inl err"
  shows "handleCatalogTry e lc req s = (Inl err, snd (isHomeOnly (ptype req) (pcatalogId req) s))"
  using assms by (auto simp: handleCatalogTry_def split: prod.splits)

lemma handleCatalogTry_main:
  assumes "ptype req = ''movie'' \<or> ptype req = ''series''"
      and "catalogIdMatch (pcatalogId req) = Some (uid, lsidRaw)"
      and "reqExtras req = Inr extras"
      and "(if truthyStr (extras ''genre'') then Inr (the (extras ''genre'')) else reqGenre req) = Inr g"
  shows "handleCatalogTry e lc req s =
     (if fst (isHomeOnly (ptype req) (pcatalogId req) s) \<and>
         (toLowerCase (if g = [] then ''Top'' else g) \<noteq> ''top''
          \<or> (truthyStr (extras ''search'') \<and> trim (the (extras ''search'')) \<noteq> []))
      then (Inr emptyOk, snd (isHomeOnly (ptype req) (pcatalogId req) s))
      else servePage e lc (if ptype req = ''movie'' then Movie else Series) (toLowerCase lsidRaw)
             extras g (snd (isHomeOnly (ptype req) (pcatalogId req) s)))"
  using assms by (auto simp: handleCatalogTry_def split: prod.splits)

section \<open>The type statistics\<close>

lemma getCache_setCache:
  "0 \<le> ttl \<Longrightarrow> getCache key t (setCache key v ttl t mem) = (Some v, setCache key v ttl t mem)"
  by (simp add: getCache_def setCache_def)

lemma liveCount_storeStats:
  "liveCount (storeStats lsid a b n s) lsid b = n"
proof -
  have g: "fst (getCache lsid (now s) (setCache lsid a (12 * 3600) (now s) (statsCache s))) = Some a"
    by (subst getCache_setCache) simp_all
  show ?thesis
    using g by (cases b) (simp_all add: liveCount_def storeStats_def statsGet_def statsSet_def)
qed

lemma liveCount_bumpStats:
  "liveCount (bumpStats lsid b n s) lsid b = max (liveCount s lsid b) n"
proof (cases "getCache lsid (now s) (statsCache s)")
  case (Pair c sc)
  show ?thesis
  proof (cases c)
    case None
    have "liveCount s lsid b = 0" using Pair None by (simp add: liveCount_def)
    moreover have "liveCount (bumpStats lsid b n s) lsid b = max 0 n"
      using Pair None
      by (simp add: bumpStats_def statsRef_def newStats_def liveCount_storeStats
            noStats_def statsGet_def split: bucket.splits)
    ultimately show ?thesis by simp
  next
    case (Some a)
    have "liveCount s lsid b = (case statsGet (statsObjs s a) b of None \<Rightarrow> 0 | Some n \<Rightarrow> n)"
      using Pair Some by (simp add: liveCount_def)
    moreover have "liveCount (bumpStats lsid b n s) lsid b
        = max (case statsGet (statsObjs s a) b of None \<Rightarrow> 0 | Some n \<Rightarrow> n) n"
      using Pair Some by (simp add: bumpStats_def statsRef_def liveCount_storeStats)
    ultimately show ?thesis by simp
  qed
qed

lemma liveCount_hasTypeWrite:
  "liveCount (hasTypeWrite lsid b a any s) lsid b = (if any then 1 else 0)"
  by (simp add: hasTypeWrite_def liveCount_storeStats)

text \<open>
  C7. \<open>bumpStats\<close> sets the counter of the type to the maximum of the counter a reader
  found before and the count of the page. The last lines of \<open>hasType\<close> write 1 or 0
  into the object the call has kept since its first lines and store that object again,
  whatever the cache holds by then. So a call of \<open>hasType\<close> that found no count, and
  waits for the list and the probe while a page of two series is served and counted,
  leaves the counter at 1: for the list \<open>ls1\<close> of the example world the call starts with
  a new object at address 0 and the request for the list; the counter is 2 after the
  page and still 2 after the probe, and 1 after the write.
\<close>

theorem typeStats_lost_update:
  "liveCount (bumpStats lsid b n s) lsid b = max (liveCount s lsid b) n
   \<and> liveCount (hasTypeWrite lsid b a any s) lsid b = (if any then 1 else 0)
   \<and> (case hasTypeRead ''ls1'' Series emptySys of
        (r, s1) \<Rightarrow>
          r = Probing 0 None
          \<and> (case handleCatalog demoEnv baseCompare seriesPage s1 of
               (resp, s2) \<Rightarrow>
                 resp = Inr \<lparr>status = 200, body = Metas [seriesOf ''tt2'', seriesOf ''tt3'']\<rparr>
                 \<and> liveCount s2 ''ls1'' Series = 2
                 \<and> (case hasTypeProbe demoEnv [] ''ls1'' Series None s2 of
                      (any, s3) \<Rightarrow>
                        any \<and> liveCount s3 ''ls1'' Series = 2
                        \<and> liveCount (hasTypeWrite ''ls1'' Series 0 any s3) ''ls1'' Series = 1)))"
proof (intro conjI)
  show "liveCount (bumpStats lsid b n s) lsid b = max (liveCount s lsid b) n"
    by (rule liveCount_bumpStats)
  show "liveCount (hasTypeWrite lsid b a any s) lsid b = (if any then 1 else 0)"
    by (rule liveCount_hasTypeWrite)
  show "case hasTypeRead ''ls1'' Series emptySys of
        (r, s1) \<Rightarrow>
          r = Probing 0 None
          \<and> (case handleCatalog demoEnv baseCompare seriesPage s1 of
               (resp, s2) \<Rightarrow>
                 resp = Inr \<lparr>status = 200, body = Metas [seriesOf ''tt2'', seriesOf ''tt3'']\<rparr>
                 \<and> liveCount s2 ''ls1'' Series = 2
                 \<and> (case hasTypeProbe demoEnv [] ''ls1'' Series None s2 of
                      (any, s3) \<Rightarrow>
                        any \<and> liveCount s3 ''ls1'' Series = 2
                        \<and> liveCount (hasTypeWrite ''ls1'' Series 0 any s3) ''ls1'' Series = 1))"
    by code_simp
qed

section \<open>Pagination\<close>

lemma servePage_eq:
  "fst (servePage e lc b lsid extras g s) =
     (case filteredSorted lc extras g (typedMetas e b lsid extras s) of
        Inl err \<Rightarrow> Inl err
      | Inr ordered \<Rightarrow>
          Inr \<lparr>status = 200,
               body = Metas (jsSlice ordered (catalogSkip (extras ''skip''))
                               (catalogSkip (extras ''skip'') + catalogLimit (extras ''limit'')))\<rparr>)"
  by (auto simp: servePage_def typedMetas_def filteredSorted_def Let_def split: prod.splits sum.splits)

lemma parse_small:
  "catalogSkip (Some ''0'') = 0" "catalogSkip (Some ''20'') = 20"
  "catalogLimit (Some ''20'') = 20" "catalogLimit (Some ''40'') = 40"
  by (simp_all add: catalogSkip_def catalogLimit_def intOr_def strOr_def parseInt10_def
        trimStart_def isSpace_def isDigit_def digitsVal_def digitVal_def)

lemma jsSlice_pages: "jsSlice xs 0 (0 + 20) @ jsSlice xs 20 (20 + 20) = jsSlice xs 0 (0 + 40)"
proof -
  have "take 20 xs @ take 20 (drop 20 xs) = take 40 xs"
    using take_add[of 20 20 xs] by simp
  moreover have "jsSlice xs 0 (0 + 20) = take 20 xs" by (simp add: jsSlice_def Let_def min_def)
  moreover have "jsSlice xs 20 (20 + 20) = take 20 (drop 20 xs)"
    by (cases "length xs \<le> 20") (auto simp: jsSlice_def Let_def min_def)
  moreover have "jsSlice xs 0 (0 + 40) = take 40 xs" by (simp add: jsSlice_def Let_def min_def)
  ultimately show ?thesis by simp
qed

lemma jsSlice_beyond: "int (length xs) \<le> k \<Longrightarrow> 0 \<le> l \<Longrightarrow> jsSlice xs k (k + l) = []"
  by (auto simp: jsSlice_def Let_def min_def)

lemma withPage_other:
  "withPage x sk li ''sort'' = x ''sort''" "withPage x sk li ''order'' = x ''order''"
  "withPage x sk li ''search'' = x ''search''" "withPage x sk li ''genre'' = x ''genre''"
  "withPage x sk li ''skip'' = Some sk" "withPage x sk li ''limit'' = Some li"
  by (simp_all add: withPage_def)

lemma filteredSorted_withPage:
  "filteredSorted lc (withPage x sk li) g ms = filteredSorted lc x g ms"
  by (simp add: filteredSorted_def sortStage_def withPage_other)

lemma typedMetas_withPage:
  "typedMetas e b lsid (withPage x ''20'' ''20'') s = typedMetas e b lsid (withPage x ''0'' ''20'') s"
  "typedMetas e b lsid (withPage x ''0'' ''40'') s = typedMetas e b lsid (withPage x ''0'' ''20'') s"
  by (simp_all add: typedMetas_def withPage_other parse_small)

lemma servePage_three_pages:
  assumes "typedMetas e b lsid (withPage x ''0'' ''20'') sA = ms"
      and "typedMetas e b lsid (withPage x ''20'' ''20'') sB = ms"
      and "typedMetas e b lsid (withPage x ''0'' ''40'') sC = ms"
  shows "metasOf (fst (servePage e lc b lsid (withPage x ''0'' ''20'') g sA))
           @ metasOf (fst (servePage e lc b lsid (withPage x ''20'' ''20'') g sB))
         = metasOf (fst (servePage e lc b lsid (withPage x ''0'' ''40'') g sC))"
proof (cases "filteredSorted lc x g ms")
  case (Inl err)
  then show ?thesis using assms
    by (simp add: servePage_eq filteredSorted_withPage metasOf_def)
next
  case (Inr ordered)
  then show ?thesis using assms jsSlice_pages[of ordered]
    by (simp add: servePage_eq filteredSorted_withPage metasOf_def withPage_other parse_small)
qed

lemma servePage_beyond:
  assumes "filteredSorted lc ex g (typedMetas e b lsid ex s) = Inr ordered"
      and "int (length ordered) \<le> catalogSkip (ex ''skip'')"
  shows "fst (servePage e lc b lsid ex g s) = Inr \<lparr>status = 200, body = Metas []\<rparr>"
proof -
  have "0 \<le> catalogLimit (ex ''limit'')" using catalogLimit_range[of "ex ''limit''"] by simp
  then show ?thesis using assms jsSlice_beyond[of ordered "catalogSkip (ex ''skip'')" "catalogLimit (ex ''limit'')"]
    by (simp add: servePage_eq)
qed

lemma applySearchAndSort_slice:
  "\<exists>out. length out \<le> length items \<and>
     (\<forall>k l. applySearchAndSort items (opts\<lparr>qskip := Some k, qlimit := Some l\<rparr>)
             = jsSlice out k (k + max 0 (min (intOr (Some l) 50) 500)))"
proof -
  let ?sortKey = "if truthyStr (qsort opts) then toLowerCase (the (qsort opts)) else ''added''"
  let ?ord = "if truthyStr (qorder opts) then toLowerCase (the (qorder opts))
              else (if ?sortKey = ''rating'' then ''desc'' else ''asc'')"
  let ?out1 = "if truthyStr (qsearch opts)
               then filter (\<lambda>x. strIncludes (nameLc x) (toLowerCase (the (qsearch opts)))) items
               else items"
  let ?out = "jsSort (searchCmp ?sortKey (?ord = ''desc'')) ?out1"
  have "length ?out = length ?out1" by (metis mset_jsSort size_mset)
  then have 1: "length ?out \<le> length items" by simp
  have 2: "\<forall>k l. applySearchAndSort items (opts\<lparr>qskip := Some k, qlimit := Some l\<rparr>)
             = jsSlice ?out k (k + max 0 (min (intOr (Some l) 50) 500))"
    by (simp add: applySearchAndSort_def Let_def)
  show ?thesis using 1 2 by blast
qed

lemma applySearchAndSort_pages:
  "applySearchAndSort items (opts\<lparr>qskip := Some 0, qlimit := Some 20\<rparr>)
     @ applySearchAndSort items (opts\<lparr>qskip := Some 20, qlimit := Some 20\<rparr>)
   = applySearchAndSort items (opts\<lparr>qskip := Some 0, qlimit := Some 40\<rparr>)"
proof -
  obtain out where o: "\<forall>k l. applySearchAndSort items (opts\<lparr>qskip := Some k, qlimit := Some l\<rparr>)
             = jsSlice out k (k + max 0 (min (intOr (Some l) 50) 500))"
    using applySearchAndSort_slice[of items opts] by blast
  show ?thesis using jsSlice_pages[of out] by (simp add: o intOr_def)
qed

lemma applySearchAndSort_beyond:
  assumes "int (length items) \<le> k"
  shows "applySearchAndSort items (opts\<lparr>qskip := Some k, qlimit := Some l\<rparr>) = []"
proof -
  obtain out where o: "length out \<le> length items"
     "\<forall>k l. applySearchAndSort items (opts\<lparr>qskip := Some k, qlimit := Some l\<rparr>)
             = jsSlice out k (k + max 0 (min (intOr (Some l) 50) 500))"
    using applySearchAndSort_slice[of items opts] by blast
  have "int (length out) \<le> k" using o(1) assms by simp
  then show ?thesis using o(2) jsSlice_beyond[of out k "max 0 (min (intOr (Some l) 50) 500)"] by simp
qed

text \<open>
  C3: over one set of typed items and the same search, genre and sort parameters, the
  page for skip 0 and limit 20 followed by the page for skip 20 and limit 20 is the page
  for skip 0 and limit 40, at the catalog endpoint and in \<open>applySearchAndSort\<close>; a skip
  at or beyond the end of the filtered set gives an empty page with status 200, not an
  error.
\<close>

theorem pagination_concatenates:
  assumes "typedMetas e b lsid (withPage x ''0'' ''20'') sA = ms"
      and "typedMetas e b lsid (withPage x ''20'' ''20'') sB = ms"
      and "typedMetas e b lsid (withPage x ''0'' ''40'') sC = ms"
  shows "metasOf (fst (servePage e localeCompare b lsid (withPage x ''0'' ''20'') g sA))
           @ metasOf (fst (servePage e localeCompare b lsid (withPage x ''20'' ''20'') g sB))
         = metasOf (fst (servePage e localeCompare b lsid (withPage x ''0'' ''40'') g sC))
       \<and> (\<forall>ordered ex s.
            filteredSorted localeCompare ex g (typedMetas e b lsid ex s) = Inr ordered
            \<and> int (length ordered) \<le> catalogSkip (ex ''skip'')
            \<longrightarrow> fst (servePage e localeCompare b lsid ex g s) = Inr \<lparr>status = 200, body = Metas []\<rparr>)
       \<and> applySearchAndSort items (opts\<lparr>qskip := Some 0, qlimit := Some 20\<rparr>)
           @ applySearchAndSort items (opts\<lparr>qskip := Some 20, qlimit := Some 20\<rparr>)
         = applySearchAndSort items (opts\<lparr>qskip := Some 0, qlimit := Some 40\<rparr>)
       \<and> (\<forall>k l. int (length items) \<le> k
            \<longrightarrow> applySearchAndSort items (opts\<lparr>qskip := Some k, qlimit := Some l\<rparr>) = [])"
  using servePage_three_pages[OF assms] servePage_beyond applySearchAndSort_pages
        applySearchAndSort_beyond
  by blast

theorem pagination_concatenates_witness:
  "typedMetas demoEnv Series ''ls1'' (withPage Map.empty ''0'' ''20'') emptySys
      = [seriesOf ''tt2'', seriesOf ''tt3'']
   \<and> typedMetas demoEnv Series ''ls1'' (withPage Map.empty ''20'' ''20'') emptySys
      = [seriesOf ''tt2'', seriesOf ''tt3'']
   \<and> typedMetas demoEnv Series ''ls1'' (withPage Map.empty ''0'' ''40'') emptySys
      = [seriesOf ''tt2'', seriesOf ''tt3'']
   \<and> metasOf (fst (servePage demoEnv baseCompare Series ''ls1'' (withPage Map.empty ''0'' ''20'') [] emptySys))
      = [seriesOf ''tt2'', seriesOf ''tt3'']
   \<and> metasOf (fst (servePage demoEnv baseCompare Series ''ls1'' (withPage Map.empty ''0'' ''20'') [] emptySys))
       @ metasOf (fst (servePage demoEnv baseCompare Series ''ls1'' (withPage Map.empty ''20'' ''20'') [] emptySys))
      = metasOf (fst (servePage demoEnv baseCompare Series ''ls1'' (withPage Map.empty ''0'' ''40'') [] emptySys))
   \<and> fst (servePage demoEnv baseCompare Series ''ls1'' (withPage Map.empty ''20'' ''20'') [] emptySys)
      = Inr \<lparr>status = 200, body = Metas []\<rparr>
   \<and> applySearchAndSort ratedItems (nameQuery ''asc''\<lparr>qskip := Some 3, qlimit := Some 20\<rparr>) = []"
proof -
  have a: "typedMetas demoEnv Series ''ls1'' (withPage Map.empty ''0'' ''20'') emptySys
      = [seriesOf ''tt2'', seriesOf ''tt3'']" by code_simp
  have b: "typedMetas demoEnv Series ''ls1'' (withPage Map.empty ''20'' ''20'') emptySys
      = [seriesOf ''tt2'', seriesOf ''tt3'']" using a by (simp add: typedMetas_withPage)
  have c: "typedMetas demoEnv Series ''ls1'' (withPage Map.empty ''0'' ''40'') emptySys
      = [seriesOf ''tt2'', seriesOf ''tt3'']" using a by (simp add: typedMetas_withPage)
  have p: "metasOf (fst (servePage demoEnv baseCompare Series ''ls1'' (withPage Map.empty ''0'' ''20'') [] emptySys))
      = [seriesOf ''tt2'', seriesOf ''tt3'']" by code_simp
  have f: "filteredSorted baseCompare (withPage Map.empty ''20'' ''20'') []
             (typedMetas demoEnv Series ''ls1'' (withPage Map.empty ''20'' ''20'') emptySys)
           = Inr [seriesOf ''tt2'', seriesOf ''tt3'']"
    unfolding b by code_simp
  have l: "int (length [seriesOf ''tt2'', seriesOf ''tt3'']) \<le> catalogSkip (withPage Map.empty ''20'' ''20'' ''skip'')"
    by (simp add: withPage_other parse_small)
  have i: "int (length ratedItems) \<le> 3" by (simp add: ratedItems_def)
  note t = pagination_concatenates[OF a b c, of baseCompare "[]" ratedItems "nameQuery ''asc''"]
  have 1: "metasOf (fst (servePage demoEnv baseCompare Series ''ls1'' (withPage Map.empty ''0'' ''20'') [] emptySys))
       @ metasOf (fst (servePage demoEnv baseCompare Series ''ls1'' (withPage Map.empty ''20'' ''20'') [] emptySys))
      = metasOf (fst (servePage demoEnv baseCompare Series ''ls1'' (withPage Map.empty ''0'' ''40'') [] emptySys))"
    using t by blast
  have 2: "fst (servePage demoEnv baseCompare Series ''ls1'' (withPage Map.empty ''20'' ''20'') [] emptySys)
      = Inr \<lparr>status = 200, body = Metas []\<rparr>"
    using t f l by blast
  have 3: "applySearchAndSort ratedItems (nameQuery ''asc''\<lparr>qskip := Some 3, qlimit := Some 20\<rparr>) = []"
    using t i by blast
  show ?thesis using a b c p 1 2 3 by blast
qed

section \<open>Home-only catalogs\<close>




lemma handleCatalog_of_try:
  assumes "reqUid req = Inr u"
  shows "fst (handleCatalog e lc req s) = Inr \<lparr>status = 200, body = Metas (metasOf (fst (handleCatalogTry e lc req s)))\<rparr>
         \<or> (\<exists>r. fst (handleCatalogTry e lc req s) = Inr r \<and> fst (handleCatalog e lc req s) = Inr r)"
  using assms
  by (cases "handleCatalogTry e lc req s"; cases "fst (handleCatalogTry e lc req s)")
     (auto simp: handleCatalog_def metasOf_def emptyOk_def)



lemma servePage_status:
  "fst (servePage e lc b lsid extras g s) = Inr r \<Longrightarrow> \<exists>ms. r = \<lparr>status = 200, body = Metas ms\<rparr>"
  by (auto simp: servePage_eq split: sum.splits)






section \<open>What the catalog path answers\<close>

lemma handleCatalogTry_ok:
  assumes "handleCatalogTry e lc req s = (Inr r, s')"
  shows "\<exists>ms. r = \<lparr>status = 200, body = Metas ms\<rparr>"
proof (cases "ptype req = ''movie'' \<or> ptype req = ''series''")
  case False
  then show ?thesis using assms handleCatalogTry_bad_type[of req e lc s] by (auto simp: emptyOk_def)
next
  case ty: True
  show ?thesis
  proof (cases "catalogIdMatch (pcatalogId req)")
    case None
    then show ?thesis using assms handleCatalogTry_no_match[of req e lc s] by (auto simp: emptyOk_def)
  next
    case (Some p)
    obtain m1 lsidRaw where p: "p = (m1, lsidRaw)" by (cases p)
    note m = Some[unfolded p]
    show ?thesis
    proof (cases "reqExtras req")
      case (Inl err)
      then show ?thesis using assms handleCatalogTry_extras_throw[OF ty m Inl, of e lc s] by simp
    next
      case ex: (Inr extras)
      show ?thesis
      proof (cases "if truthyStr (extras ''genre'') then Inr (the (extras ''genre'')) else reqGenre req")
        case (Inl err)
        then show ?thesis using assms handleCatalogTry_genre_throw[OF ty m ex Inl, of e lc s] by simp
      next
        case (Inr g)
        let ?s0 = "snd (isHomeOnly (ptype req) (pcatalogId req) s)"
        let ?b = "if ptype req = ''movie'' then Movie else Series"
        from assms handleCatalogTry_main[OF ty m ex Inr, of e lc s]
        have "r = emptyOk \<or> servePage e lc ?b (toLowerCase lsidRaw) extras g ?s0 = (Inr r, s')"
          by (simp split: if_splits)
        then show ?thesis
        proof
          assume "r = emptyOk"
          then show ?thesis by (simp add: emptyOk_def)
        next
          assume "servePage e lc ?b (toLowerCase lsidRaw) extras g ?s0 = (Inr r, s')"
          then have "fst (servePage e lc ?b (toLowerCase lsidRaw) extras g ?s0) = Inr r" by simp
          then show ?thesis by (rule servePage_status)
        qed
      qed
    qed
  qed
qed

lemma handleCatalog_always_ok:
  assumes "reqUid req = Inr u"
  shows "\<exists>ms s'. handleCatalog e lc req s = (Inr \<lparr>status = 200, body = Metas ms\<rparr>, s')"
proof (cases "handleCatalogTry e lc req s")
  case (Pair r s')
  show ?thesis
  proof (cases r)
    case (Inl err)
    then show ?thesis using Pair assms by (auto simp: handleCatalog_def emptyOk_def)
  next
    case (Inr x)
    from handleCatalogTry_ok[of e lc req s x s'] Pair Inr
    obtain ms where "x = \<lparr>status = 200, body = Metas ms\<rparr>" by auto
    then show ?thesis using Pair Inr assms by (auto simp: handleCatalog_def)
  qed
qed

lemma visibilityGate_cases:
  "visibilityGate decodeURIComponent files cid genreGiven =
     (case gateIdMatch cid of
        None \<Rightarrow> Next
      | Some (uidRaw, l, b) \<Rightarrow>
          (case decodeURIComponent uidRaw of
             Inl err \<Rightarrow> Next
           | Inr uid \<Rightarrow>
               if getVisibilityFor files uid l b = \<lparr>discover = False, home = False\<rparr>
                 then Respond \<lparr>status = 404, body = ErrBody ''CATALOG_DISABLED''\<rparr>
               else if getVisibilityFor files uid l b = \<lparr>discover = False, home = True\<rparr> \<and> genreGiven
                 then Respond \<lparr>status = 404, body = ErrBody ''HIDDEN_FROM_DISCOVER''\<rparr>
               else Next))"
proof -
  have v: "(x = \<lparr>discover = d, home = h\<rparr>) = (discover x = d \<and> home x = h)" for x :: vis and d h
    by (cases x) auto
  show ?thesis
    by (auto simp: visibilityGate_def v Let_def split: option.splits sum.splits)
qed

text \<open>
  C8, as the source has it. For a request whose uid is read without an exception,
  \<open>handleCatalog\<close> always answers with status 200 and a list of metas: an exception
  anywhere inside its \<open>try\<close> is answered \<open>{ metas: [] }\<close>, and so are a catalog id it does
  not recognise and a type that is neither \<open>movie\<close> nor \<open>series\<close>. The uid is read before
  the \<open>try\<close>: an exception there leaves the handler. The visibility gate answers a request
  for a catalog with both flags off with status 404 and \<open>CATALOG_DISABLED\<close>, one for a
  home-only catalog that carries a genre with status 404 and \<open>HIDDEN_FROM_DISCOVER\<close>, and
  passes every other request on, also one whose catalog id it cannot read.
\<close>

theorem catalog_path_answers:
  "(reqUid req = Inr u \<longrightarrow>
      (\<exists>ms s'. handleCatalog e localeCompare req s = (Inr \<lparr>status = 200, body = Metas ms\<rparr>, s')))
   \<and> (reqUid req = Inr u \<and> handleCatalogTry e localeCompare req s = (Inl err, s1)
        \<longrightarrow> handleCatalog e localeCompare req s = (Inr emptyOk, s1))
   \<and> (reqUid req = Inr u \<and> catalogIdMatch (pcatalogId req) = None
        \<longrightarrow> handleCatalog e localeCompare req s = (Inr emptyOk, s))
   \<and> (reqUid req = Inr u \<and> ptype req \<noteq> ''movie'' \<and> ptype req \<noteq> ''series''
        \<longrightarrow> handleCatalog e localeCompare req s = (Inr emptyOk, s))
   \<and> (reqUid req = Inl err \<longrightarrow> handleCatalog e localeCompare req s = (Inl err, s))
   \<and> visibilityGate decodeURIComponent files cid genreGiven =
       (case gateIdMatch cid of
          None \<Rightarrow> Next
        | Some (uidRaw, l, b) \<Rightarrow>
            (case decodeURIComponent uidRaw of
               Inl err \<Rightarrow> Next
             | Inr uid \<Rightarrow>
                 if getVisibilityFor files uid l b = \<lparr>discover = False, home = False\<rparr>
                   then Respond \<lparr>status = 404, body = ErrBody ''CATALOG_DISABLED''\<rparr>
                 else if getVisibilityFor files uid l b = \<lparr>discover = False, home = True\<rparr> \<and> genreGiven
                   then Respond \<lparr>status = 404, body = ErrBody ''HIDDEN_FROM_DISCOVER''\<rparr>
                 else Next))"
proof (intro conjI impI)
  assume "reqUid req = Inr u"
  then show "\<exists>ms s'. handleCatalog e localeCompare req s = (Inr \<lparr>status = 200, body = Metas ms\<rparr>, s')"
    by (rule handleCatalog_always_ok)
next
  assume "reqUid req = Inr u \<and> handleCatalogTry e localeCompare req s = (Inl err, s1)"
  then show "handleCatalog e localeCompare req s = (Inr emptyOk, s1)"
    by (simp add: handleCatalog_def)
next
  assume "reqUid req = Inr u \<and> catalogIdMatch (pcatalogId req) = None"
  then show "handleCatalog e localeCompare req s = (Inr emptyOk, s)"
    using handleCatalogTry_no_match[of req e localeCompare s] by (simp add: handleCatalog_def)
next
  assume "reqUid req = Inr u \<and> ptype req \<noteq> ''movie'' \<and> ptype req \<noteq> ''series''"
  then show "handleCatalog e localeCompare req s = (Inr emptyOk, s)"
    using handleCatalogTry_bad_type[of req e localeCompare s] by (simp add: handleCatalog_def)
next
  assume "reqUid req = Inl err"
  then show "handleCatalog e localeCompare req s = (Inl err, s)"
    by (simp add: handleCatalog_def)
next
  show "visibilityGate decodeURIComponent files cid genreGiven =
       (case gateIdMatch cid of
          None \<Rightarrow> Next
        | Some (uidRaw, l, b) \<Rightarrow>
            (case decodeURIComponent uidRaw of
               Inl err \<Rightarrow> Next
             | Inr uid \<Rightarrow>
                 if getVisibilityFor files uid l b = \<lparr>discover = False, home = False\<rparr>
                   then Respond \<lparr>status = 404, body = ErrBody ''CATALOG_DISABLED''\<rparr>
                 else if getVisibilityFor files uid l b = \<lparr>discover = False, home = True\<rparr> \<and> genreGiven
                   then Respond \<lparr>status = 404, body = ErrBody ''HIDDEN_FROM_DISCOVER''\<rparr>
                 else Next))"
    by (rule visibilityGate_cases)
qed

theorem catalog_path_answers_witness:
  "reqUid (catalogReq ''series'' ''imdb-default-ls1-series'' [''sort'' \<mapsto> ''year'']) = Inr ''default''
   \<and> fst (handleCatalogTry numericYearEnv baseCompare
        (catalogReq ''series'' ''imdb-default-ls1-series'' [''sort'' \<mapsto> ''year'']) emptySys)
      = Inl TypeError
   \<and> fst (handleCatalog numericYearEnv baseCompare
        (catalogReq ''series'' ''imdb-default-ls1-series'' [''sort'' \<mapsto> ''year'']) emptySys)
      = Inr emptyOk
   \<and> (\<exists>ms s'. handleCatalog demoEnv baseCompare seriesPage emptySys
                 = (Inr \<lparr>status = 200, body = Metas ms\<rparr>, s'))
   \<and> catalogIdMatch ''no-such-catalog'' = None
   \<and> handleCatalog demoEnv baseCompare (catalogReq ''movie'' ''no-such-catalog'' Map.empty) emptySys
      = (Inr emptyOk, emptySys)
   \<and> handleCatalog demoEnv baseCompare (catalogReq ''tv'' ''imdb-default-ls1-movies'' Map.empty) emptySys
      = (Inr emptyOk, emptySys)
   \<and> reqUid badCookieReq = Inl URIError
   \<and> handleCatalog demoEnv baseCompare badCookieReq emptySys = (Inl URIError, emptySys)
   \<and> gateIdMatch ''no-such-catalog'' = None
   \<and> visibilityGate plainDecode Map.empty ''no-such-catalog'' True = Next"
proof -
  let ?r = "catalogReq ''series'' ''imdb-default-ls1-series'' [''sort'' \<mapsto> ''year'']"
  let ?q = "catalogReq ''movie'' ''no-such-catalog'' Map.empty"
  let ?v = "catalogReq ''tv'' ''imdb-default-ls1-movies'' Map.empty"
  have u: "reqUid ?r = Inr ''default''" "reqUid ?q = Inr ''default''" "reqUid ?v = Inr ''default''"
          "reqUid seriesPage = Inr ''default''"
          "pcatalogId ?q = ''no-such-catalog''" "ptype ?v = ''tv''"
    by (simp_all add: catalogReq_def seriesPage_def)
  have t: "fst (handleCatalogTry numericYearEnv baseCompare ?r emptySys) = Inl TypeError" by code_simp
  then obtain s1 where t': "handleCatalogTry numericYearEnv baseCompare ?r emptySys = (Inl TypeError, s1)"
    by (cases "handleCatalogTry numericYearEnv baseCompare ?r emptySys") auto
  have 1: "handleCatalog numericYearEnv baseCompare ?r emptySys = (Inr emptyOk, s1)"
    using catalog_path_answers[of ?r "''default''" numericYearEnv baseCompare emptySys TypeError s1] u t'
    by blast
  have 0: "\<exists>ms s'. handleCatalog demoEnv baseCompare seriesPage emptySys
                 = (Inr \<lparr>status = 200, body = Metas ms\<rparr>, s')"
    using catalog_path_answers[of seriesPage "''default''" demoEnv baseCompare emptySys] u by blast
  have m: "catalogIdMatch ''no-such-catalog'' = None" by code_simp
  have 2: "handleCatalog demoEnv baseCompare ?q emptySys = (Inr emptyOk, emptySys)"
    using catalog_path_answers[of ?q "''default''" demoEnv baseCompare emptySys] u m by simp
  have 3: "handleCatalog demoEnv baseCompare ?v emptySys = (Inr emptyOk, emptySys)"
    using catalog_path_answers[of ?v "''default''" demoEnv baseCompare emptySys] u by simp
  have b: "reqUid badCookieReq = Inl URIError" by code_simp
  have 4: "handleCatalog demoEnv baseCompare badCookieReq emptySys = (Inl URIError, emptySys)"
    using catalog_path_answers[of badCookieReq _ demoEnv baseCompare emptySys URIError] b by blast
  have g: "gateIdMatch ''no-such-catalog'' = None" by code_simp
  have 5: "visibilityGate plainDecode Map.empty ''no-such-catalog'' True = Next"
    using catalog_path_answers[of _ _ _ _ _ _ _ plainDecode Map.empty "''no-such-catalog''" True] g
    by simp
  show ?thesis using u t 1 0 m 2 3 b 4 g 5 by simp
qed

text \<open>
  C8 as stated fails. The visibility gate, on the catalog path, answers a request for a
  catalog that is switched off for both surfaces, and a request with a genre for a
  home-only catalog, with status 404 and an error body. And a catalog request that
  comes with the cookie \<open>uid=%\<close> gets no \<open>{ metas: [] }\<close>: \<open>decodeURIComponent\<close> throws
  while the uid is read, before the \<open>try\<close> of the handler.
\<close>

theorem catalog_path_counterexample:
  "visibilityGate plainDecode [''default'' \<mapsto> [disabledEntry]] ''imdb-default-ls1-movies'' False
     = Respond \<lparr>status = 404, body = ErrBody ''CATALOG_DISABLED''\<rparr>
   \<and> visibilityGate plainDecode [''default'' \<mapsto> [homeOnlyEntry]] ''imdb-default-ls1-movies'' True
     = Respond \<lparr>status = 404, body = ErrBody ''HIDDEN_FROM_DISCOVER''\<rparr>
   \<and> getUidFromReq plainDecode None ''uid=%'' = Inl URIError
   \<and> fst (handleCatalog demoEnv baseCompare badCookieReq emptySys) = Inl URIError"
  by code_simp

end
